theory Spec2Isabelle
  imports Complex_Main "HOL-Library.List_Lexorder" "HOL-Library.Char_ord"
begin

section \<open>Numbers, errors and the labelled containers of the engine\<close>

text \<open>
  The engine (\<^verbatim>\<open>black_litterman/domain/engine.py\<close>) computes on pandas Series and
  DataFrames of float64. A float is idealised here as \<open>Some x\<close>, a finite value with
  real arithmetic (no rounding, no overflow), or \<open>None\<close>, a value that is not finite
  (NaN or an infinity). Addition, subtraction, multiplication and division by a scalar
  keep a non-finite operand non-finite, and pandas fills a label that one operand of an
  aligned operation lacks with NaN.
\<close>

type_synonym num = "real option"

definition num_add :: "num \<Rightarrow> num \<Rightarrow> num" where
  "num_add a b = (case a of None \<Rightarrow> None
                  | Some x \<Rightarrow> (case b of None \<Rightarrow> None | Some y \<Rightarrow> Some (x + y)))"

definition num_sub :: "num \<Rightarrow> num \<Rightarrow> num" where
  "num_sub a b = (case a of None \<Rightarrow> None
                  | Some x \<Rightarrow> (case b of None \<Rightarrow> None | Some y \<Rightarrow> Some (x - y)))"

definition num_mul :: "num \<Rightarrow> num \<Rightarrow> num" where
  "num_mul a b = (case a of None \<Rightarrow> None
                  | Some x \<Rightarrow> (case b of None \<Rightarrow> None | Some y \<Rightarrow> Some (x * y)))"

text \<open>Division by a Python float: a zero divisor gives an infinity or NaN, no exception.\<close>

definition num_div :: "num \<Rightarrow> real \<Rightarrow> num" where
  "num_div a d = (case a of None \<Rightarrow> None
                  | Some x \<Rightarrow> (if d = 0 then None else Some (x / d)))"

text \<open>Python's \<^verbatim>\<open>sum(xs)\<close>: a left fold that starts from 0.\<close>

definition py_sum :: "num list \<Rightarrow> num" where
  "py_sum xs = foldl num_add (Some 0) xs"

text \<open>
  The exceptions that can leave the engine: pandas raises \<^verbatim>\<open>ValueError\<close> for labels
  or shapes that do not fit, Python raises \<^verbatim>\<open>UnboundLocalError\<close> for a local read
  before its assignment and \<^verbatim>\<open>IndexError\<close> for a read out of range, numpy raises
  \<^verbatim>\<open>LinAlgError\<close>; \<open>CollaboratorError\<close> stands for whatever a collaborator raises.
\<close>

datatype error = ValueError | UnboundLocalError | LinAlgError | IndexError
  | CollaboratorError string

text \<open>
  A pandas Series and a pandas DataFrame: the labels of each axis and the values.
  Labels are unique within an axis (they are dictionary keys, view ids and asset ids);
  what pandas does on duplicated labels is not modelled.
\<close>

record 'l series =
  s_name :: "string option"
  s_index :: "'l list"
  s_values :: "num list"

record ('r, 'c) dataframe =
  df_index :: "'r list"
  df_columns :: "'c list"
  df_values :: "num list list"

text \<open>
  \<^verbatim>\<open>Index.union\<close>: the index itself when both are equal or the other is empty,
  otherwise the sorted union.
\<close>

definition index_union :: "'l::linorder list \<Rightarrow> 'l list \<Rightarrow> 'l list" where
  "index_union a b =
     (if a = b \<or> b = [] then a else if a = [] then b else sort (remdups (a @ b)))"

text \<open>
  \<^verbatim>\<open>reindex\<close>: the entries in the order of the new labels, \<open>fill\<close> where the old
  axis has no such label; nothing moves when the labels are the same.
\<close>

definition reindex :: "'l list \<Rightarrow> 'x list \<Rightarrow> 'x \<Rightarrow> 'l list \<Rightarrow> 'x list" where
  "reindex labels xs fill new =
     (if new = labels then xs
      else map (\<lambda>l. case map_of (zip labels xs) l of None \<Rightarrow> fill | Some v \<Rightarrow> v) new)"

text \<open>\<^verbatim>\<open>np.dot\<close> of two vectors, of a matrix and a vector, and of two matrices
  (the second with \<open>n\<close> columns).\<close>

definition np_dot_vv :: "num list \<Rightarrow> num list \<Rightarrow> num" where
  "np_dot_vv xs ys = foldr num_add (map2 num_mul xs ys) (Some 0)"

definition np_dot_mv :: "num list list \<Rightarrow> num list \<Rightarrow> num list" where
  "np_dot_mv A v = map (\<lambda>row. np_dot_vv row v) A"

definition column :: "num list list \<Rightarrow> nat \<Rightarrow> num list" where
  "column B j = map (\<lambda>row. row ! j) B"

definition np_dot_mm :: "num list list \<Rightarrow> num list list \<Rightarrow> nat \<Rightarrow> num list list" where
  "np_dot_mm A B n = map (\<lambda>row. map (\<lambda>j. np_dot_vv row (column B j)) [0..<n]) A"

text \<open>
  \<^verbatim>\<open>pd.DataFrame(values, index=..., columns=...)\<close>: the constructor refuses values whose
  shape is not that of the labels.
\<close>

definition DataFrame :: "num list list \<Rightarrow> 'r list \<Rightarrow> 'c list \<Rightarrow> error + ('r, 'c) dataframe" where
  "DataFrame vs idx cols =
     (if length vs = length idx \<and> list_all (\<lambda>row. length row = length cols) vs
      then Inr \<lparr>df_index = idx, df_columns = cols, df_values = vs\<rparr>
      else Inl ValueError)"

text \<open>
  \<^verbatim>\<open>DataFrame.dot\<close>: the columns of the left and the index of the right operand must
  hold the same labels, or pandas raises \<^verbatim>\<open>ValueError("matrices are not aligned")\<close>;
  both are then put in the order of the common labels and multiplied.
\<close>

definition df_dot ::
  "('r, 'k::linorder) dataframe \<Rightarrow> ('k, 'c) dataframe \<Rightarrow> error + ('r, 'c) dataframe" where
  "df_dot a b =
     (let common = index_union (df_columns a) (df_index b) in
      if length common > length (df_columns a) \<or> length common > length (df_index b)
      then Inl ValueError
      else
        let lvals = map (\<lambda>row. reindex (df_columns a) row None common) (df_values a);
            rvals = reindex (df_index b) (df_values b)
                      (replicate (length (df_columns b)) None) common
        in Inr \<lparr>df_index = df_index a, df_columns = df_columns b,
                df_values = np_dot_mm lvals rvals (length (df_columns b))\<rparr>)"

definition df_dot_series ::
  "('r, 'k::linorder) dataframe \<Rightarrow> 'k series \<Rightarrow> error + 'r series" where
  "df_dot_series a s =
     (let common = index_union (df_columns a) (s_index s) in
      if length common > length (df_columns a) \<or> length common > length (s_index s)
      then Inl ValueError
      else
        let lvals = map (\<lambda>row. reindex (df_columns a) row None common) (df_values a);
            rvals = reindex (s_index s) (s_values s) None common
        in Inr \<lparr>s_name = None, s_index = df_index a, s_values = np_dot_mv lvals rvals\<rparr>)"

text \<open>\<^verbatim>\<open>DataFrame.T\<close>.\<close>

definition df_T :: "('r, 'c) dataframe \<Rightarrow> ('c, 'r) dataframe" where
  "df_T a = \<lparr>df_index = df_columns a, df_columns = df_index a,
             df_values = map (column (df_values a)) [0..<length (df_columns a)]\<rparr>"

text \<open>\<^verbatim>\<open>DataFrame.divide(scalar)\<close> and \<^verbatim>\<open>Series.divide(scalar)\<close>.\<close>

definition df_divide :: "('r, 'c) dataframe \<Rightarrow> real \<Rightarrow> ('r, 'c) dataframe" where
  "df_divide a d = a\<lparr>df_values := map (map (\<lambda>x. num_div x d)) (df_values a)\<rparr>"

definition series_divide :: "'l series \<Rightarrow> real \<Rightarrow> 'l series" where
  "series_divide s d = s\<lparr>s_values := map (\<lambda>x. num_div x d) (s_values s)\<rparr>"

text \<open>\<^verbatim>\<open>scalar * series\<close>.\<close>

definition series_scale :: "real \<Rightarrow> 'l series \<Rightarrow> 'l series" where
  "series_scale c s = s\<lparr>s_values := map (\<lambda>x. num_mul (Some c) x) (s_values s)\<rparr>"

text \<open>
  \<^verbatim>\<open>frame + frame\<close>: both frames are aligned on the union of their labels, on either
  axis, and a cell that one of them lacks is NaN.
\<close>

definition df_add ::
  "('r::linorder, 'c::linorder) dataframe \<Rightarrow> ('r, 'c) dataframe \<Rightarrow> ('r, 'c) dataframe" where
  "df_add a b =
     (let idx = index_union (df_index a) (df_index b);
          cols = index_union (df_columns a) (df_columns b);
          align = (\<lambda>d. reindex (df_index d)
                          (map (\<lambda>row. reindex (df_columns d) row None cols) (df_values d))
                          (replicate (length cols) None) idx)
      in \<lparr>df_index = idx, df_columns = cols,
          df_values = map2 (map2 num_add) (align a) (align b)\<rparr>)"

text \<open>
  A binary operation on two Series: aligned on the union of the labels, the name kept
  only when both operands have the same name.
\<close>

definition series_binop ::
  "(num \<Rightarrow> num \<Rightarrow> num) \<Rightarrow> 'l::linorder series \<Rightarrow> 'l series \<Rightarrow> 'l series" where
  "series_binop f a b =
     (let idx = index_union (s_index a) (s_index b)
      in \<lparr>s_name = (if s_name a = s_name b then s_name a else None),
          s_index = idx,
          s_values = map2 f (reindex (s_index a) (s_values a) None idx)
                            (reindex (s_index b) (s_values b) None idx)\<rparr>)"

definition series_add :: "'l::linorder series \<Rightarrow> 'l series \<Rightarrow> 'l series" where
  "series_add = series_binop num_add"

definition series_subtract :: "'l::linorder series \<Rightarrow> 'l series \<Rightarrow> 'l series" where
  "series_subtract = series_binop num_sub"


section \<open>Collaborators of the engine\<close>

text \<open>
  numpy, scipy and the constants module are imported by \<^verbatim>\<open>engine.py\<close>, not defined
  by it; they are parameters of the model.
  \<^item> \<open>np_linalg_inv\<close> is \<^verbatim>\<open>np.linalg.inv\<close> on the values of a frame: the inverse,
    or \<^verbatim>\<open>LinAlgError\<close> for a matrix that numpy finds singular or not square;
  \<^item> \<open>optimize_minimize\<close> is \<^verbatim>\<open>scipy.optimize.minimize(f, x0, method=...)\<close> on a
    scalar objective, which may raise; its result carries the point \<^verbatim>\<open>x\<close> and the
    flag \<^verbatim>\<open>success\<close>;
  \<^item> \<open>Weights_MARKET\<close> and \<open>Weights_BLACK_LITTERMAN\<close> are the constants
    \<^verbatim>\<open>Weights.MARKET\<close> and \<^verbatim>\<open>Weights.BLACK_LITTERMAN\<close> of
    \<^verbatim>\<open>black_litterman/constants.py\<close>.
\<close>

record optimize_result =
  res_x :: "num list"
  res_success :: bool

record modules =
  np_linalg_inv :: "num list list \<Rightarrow> error + num list list"
  optimize_minimize :: "(num \<Rightarrow> error + num) \<Rightarrow> num \<Rightarrow> string \<Rightarrow> error + optimize_result"
  Weights_MARKET :: string
  Weights_BLACK_LITTERMAN :: string

text \<open>
  The market-data engine that \<^verbatim>\<open>BaseDataReader.get_market_data_engine\<close> returns
  (\<^verbatim>\<open>black_litterman/market_data\<close>): the two operations the engine calls on it.
\<close>

record 'a market_data_engine =
  mde_get_market_weights :: "string \<Rightarrow> error + 'a series"
  mde_get_annualised_cov_matrix :: "string \<Rightarrow> string \<Rightarrow> error + ('a, 'a) dataframe"

text \<open>
  Modelled from the spec: \<^verbatim>\<open>black_litterman/domain/views.py\<close> (the classes
  \<^verbatim>\<open>View\<close> and \<^verbatim>\<open>ViewCollection\<close>) is missing. A view has an id, a name, a
  confidence, an asserted out-performance and an allocation of weights to assets; a
  collection is an ordered sequence of views with unique ids. The view matrix has one
  row per view and one column per asset of the universe, zero for an asset the view
  does not reference; the out-performance vector has one entry per view, in the same
  order.
\<close>

record ('v, 'a) View =
  view_id :: 'v
  view_name :: string
  confidence :: real
  out_performance :: real
  allocation :: "('a \<times> real) list"

type_synonym ('v, 'a) ViewCollection = "('v, 'a) View list"

definition allocation_row :: "('v, 'a) View \<Rightarrow> 'a list \<Rightarrow> num list" where
  "allocation_row view asset_universe =
     map (\<lambda>a. case map_of (allocation view) a of None \<Rightarrow> Some 0 | Some w \<Rightarrow> Some w)
       asset_universe"

definition get_view_data_frame :: "('v, 'a) View \<Rightarrow> 'a list \<Rightarrow> ('v, 'a) dataframe" where
  "get_view_data_frame view asset_universe =
     \<lparr>df_index = [view_id view], df_columns = asset_universe,
      df_values = [allocation_row view asset_universe]\<rparr>"

definition get_view_matrix :: "('v, 'a) ViewCollection \<Rightarrow> 'a list \<Rightarrow> ('v, 'a) dataframe" where
  "get_view_matrix view_collection asset_universe =
     \<lparr>df_index = map view_id view_collection, df_columns = asset_universe,
      df_values = map (\<lambda>view. allocation_row view asset_universe) view_collection\<rparr>"

definition get_view_out_performances :: "('v, 'a) ViewCollection \<Rightarrow> 'v series" where
  "get_view_out_performances view_collection =
     \<lparr>s_name = None, s_index = map view_id view_collection,
      s_values = map (\<lambda>view. Some (out_performance view)) view_collection\<rparr>"

definition get_all_views :: "('v, 'a) ViewCollection \<Rightarrow> ('v, 'a) View list" where
  "get_all_views view_collection = view_collection"

section \<open>The engine\<close>

text \<open>\<^verbatim>\<open>CalculationSettings\<close>; the asset universe is a dictionary from asset id to label.\<close>

record 'a CalculationSettings =
  tau :: real
  risk_aversion :: real
  start_date :: string
  calculation_date :: string
  asset_universe :: "('a \<times> string) list"

text \<open>\<^verbatim>\<open>list(asset_universe)\<close>: the keys of the dictionary, in its order.\<close>

definition asset_list :: "'a CalculationSettings \<Rightarrow> 'a list" where
  "asset_list cs = map fst (asset_universe cs)"

record 'a BLEngine =
  market_data_engine :: "'a market_data_engine"
  calc_settings :: "'a CalculationSettings"

text \<open>\<^verbatim>\<open>BLEngine.__init__\<close>: the data reader gives the market-data engine of the window.\<close>

definition BLEngine_init ::
  "(string \<Rightarrow> string \<Rightarrow> 'a market_data_engine) \<Rightarrow> 'a CalculationSettings \<Rightarrow> 'a BLEngine" where
  "BLEngine_init data_reader cs =
     \<lparr>market_data_engine = data_reader (start_date cs) (calculation_date cs),
      calc_settings = cs\<rparr>"

text \<open>
  \<^verbatim>\<open>get_market_weights\<close> (lines 43-54): the end date defaults to the calculation date;
  the Series of the collaborator is renamed and returned.
\<close>

definition get_market_weights ::
  "modules \<Rightarrow> 'a BLEngine \<Rightarrow> string option \<Rightarrow> error + 'a series" where
  "get_market_weights env self end_date =
     (let end_date' = (case end_date of None \<Rightarrow> calculation_date (calc_settings self)
                        | Some d \<Rightarrow> d)
      in case mde_get_market_weights (market_data_engine self) end_date' of
           Inl e \<Rightarrow> Inl e
         | Inr weights \<Rightarrow> Inr (weights\<lparr>s_name := Some (Weights_MARKET env)\<rparr>))"

text \<open>
  \<^verbatim>\<open>_get_weights\<close> (lines 123-144). The \<^verbatim>\<open>try\<close> block computes \<^verbatim>\<open>mat_1\<close>; its handler
  catches \<^verbatim>\<open>ValueError\<close>, prints a line and falls through, so that the next statement
  reads the local \<^verbatim>\<open>mat_1\<close> that was never assigned: \<^verbatim>\<open>UnboundLocalError\<close>. The
  printed line is not modelled. Everything after the \<^verbatim>\<open>try\<close> statement is outside
  any handler.
\<close>

definition mat_1_of ::
  "'a CalculationSettings \<Rightarrow> ('a::linorder, 'a) dataframe \<Rightarrow> ('v::linorder, 'a) dataframe \<Rightarrow>
   ('v, 'v) dataframe \<Rightarrow> error + ('v, 'v) dataframe" where
  "mat_1_of cs market_cov view_matrix view_cov =
     (case df_dot view_matrix market_cov of
        Inl e \<Rightarrow> Inl e
      | Inr pm \<Rightarrow>
          (case df_dot pm (df_T view_matrix) of
             Inl e \<Rightarrow> Inl e
           | Inr pmp \<Rightarrow> Inr (df_add (df_divide view_cov (tau cs)) pmp)))"

definition mat_2_of ::
  "'a CalculationSettings \<Rightarrow> 'a::linorder series \<Rightarrow> ('a, 'a) dataframe \<Rightarrow>
   ('v::linorder, 'a) dataframe \<Rightarrow> 'v series \<Rightarrow> error + 'v series" where
  "mat_2_of cs market_weights market_cov view_matrix view_out_performance =
     (case df_dot view_matrix market_cov of
        Inl e \<Rightarrow> Inl e
      | Inr pm \<Rightarrow>
          (case df_dot_series pm market_weights of
             Inl e \<Rightarrow> Inl e
           | Inr pmw \<Rightarrow>
               Inr (series_subtract
                      (series_divide view_out_performance (risk_aversion cs)) pmw)))"

definition get_weights ::
  "modules \<Rightarrow> 'a BLEngine \<Rightarrow> 'a::linorder series \<Rightarrow> ('a, 'a) dataframe \<Rightarrow>
   ('v::linorder, 'a) dataframe \<Rightarrow> ('v, 'v) dataframe \<Rightarrow> 'v series \<Rightarrow> error + 'a series" where
  "get_weights env self market_weights market_cov view_matrix view_cov view_out_performance =
     (case mat_1_of (calc_settings self) market_cov view_matrix view_cov of
        Inl e \<Rightarrow> (if e = ValueError then Inl UnboundLocalError else Inl e)
      | Inr mat_1 \<Rightarrow>
     (case np_linalg_inv env (df_values mat_1) of
        Inl e \<Rightarrow> Inl e
      | Inr inv_values \<Rightarrow>
     (case DataFrame inv_values (df_index mat_1) (df_index mat_1) of
        Inl e \<Rightarrow> Inl e
      | Inr mat_1_inv \<Rightarrow>
     (case mat_2_of (calc_settings self) market_weights market_cov view_matrix
             view_out_performance of
        Inl e \<Rightarrow> Inl e
      | Inr mat_2 \<Rightarrow>
     (case df_dot (df_T view_matrix) mat_1_inv of
        Inl e \<Rightarrow> Inl e
      | Inr pt_inv \<Rightarrow>
     (case df_dot_series pt_inv mat_2 of
        Inl e \<Rightarrow> Inl e
      | Inr adjustment \<Rightarrow> Inr (series_add market_weights adjustment)))))))"

text \<open>\<^verbatim>\<open>_get_view_target_weights\<close> (lines 146-163).\<close>

definition get_view_target_weights ::
  "modules \<Rightarrow> 'a BLEngine \<Rightarrow> ('v, 'a) View \<Rightarrow> 'a::linorder series \<Rightarrow> ('a, 'a) dataframe \<Rightarrow>
   ('v::linorder, 'a) dataframe \<Rightarrow> 'v series \<Rightarrow> error + 'a series" where
  "get_view_target_weights env self view market_weights market_covariance view_matrix
       view_out_performance =
     (case DataFrame [[Some 0]] [view_id view] [view_id view] of
        Inl e \<Rightarrow> Inl e
      | Inr zero_view_cov \<Rightarrow>
     (case get_weights env self market_weights market_covariance view_matrix zero_view_cov
             view_out_performance of
        Inl e \<Rightarrow> Inl e
      | Inr full_confidence_weights \<Rightarrow>
          (let max_weight_difference = series_subtract full_confidence_weights market_weights
           in Inr (series_add market_weights
                     (series_scale (confidence view) max_weight_difference)))))"

text \<open>\<^verbatim>\<open>_get_sum_squares_error\<close> (lines 165-175).\<close>

definition get_sum_squares_error :: "'l::linorder series \<Rightarrow> 'l series \<Rightarrow> num" where
  "get_sum_squares_error series_1 series_2 =
     (let diff = series_subtract series_1 series_2
      in py_sum (map (\<lambda>x. num_mul x x) (s_values diff)))"

text \<open>
  \<^verbatim>\<open>_confidence_to_variance\<close> (lines 177-199): the objective of the minimisation is the
  nested function \<^verbatim>\<open>_error_vs_target_weights\<close>; the first coordinate of the point the
  minimiser returns is the result, whatever else the minimiser reports.
\<close>

definition error_vs_target_weights ::
  "modules \<Rightarrow> 'a BLEngine \<Rightarrow> ('v, 'a) View \<Rightarrow> 'a::linorder series \<Rightarrow> ('a, 'a) dataframe \<Rightarrow>
   ('v::linorder, 'a) dataframe \<Rightarrow> 'v series \<Rightarrow> 'a series \<Rightarrow> num \<Rightarrow> error + num" where
  "error_vs_target_weights env self view market_weights market_covariance view_matrix
       view_out_performance target_weights var =
     (case DataFrame [[var]] [view_id view] [view_id view] of
        Inl e \<Rightarrow> Inl e
      | Inr view_cov \<Rightarrow>
     (case get_weights env self market_weights market_covariance view_matrix view_cov
             view_out_performance of
        Inl e \<Rightarrow> Inl e
      | Inr weights_for_cov \<Rightarrow> Inr (get_sum_squares_error weights_for_cov target_weights)))"

definition confidence_to_variance ::
  "modules \<Rightarrow> 'a BLEngine \<Rightarrow> ('v::linorder, 'a::linorder) View \<Rightarrow> 'a series \<Rightarrow>
   ('a, 'a) dataframe \<Rightarrow> error + num" where
  "confidence_to_variance env self view market_weights market_covariance =
     (let view_matrix = get_view_data_frame view (asset_list (calc_settings self));
          view_out_performance =
            \<lparr>s_name = None, s_index = [view_id view],
             s_values = [Some (out_performance view)]\<rparr>
      in case get_view_target_weights env self view market_weights market_covariance
                view_matrix view_out_performance of
           Inl e \<Rightarrow> Inl e
         | Inr target_weights \<Rightarrow>
        (case optimize_minimize env
                (error_vs_target_weights env self view market_weights market_covariance
                   view_matrix view_out_performance target_weights)
                (Some (1 / 10)) ''BFGS'' of
           Inl e \<Rightarrow> Inl e
         | Inr variance \<Rightarrow>
             (case res_x variance of [] \<Rightarrow> Inl IndexError | x0 # _ \<Rightarrow> Inr x0)))"

text \<open>
  \<^verbatim>\<open>get_view_covariances_from_confidences\<close> (lines 103-121). \<^verbatim>\<open>cov_by_view\<close> is a
  dictionary in insertion order: an update of a key that is present replaces its value
  where it stands.
\<close>

fun dict_update :: "('k \<times> 'x) list \<Rightarrow> 'k \<Rightarrow> 'x \<Rightarrow> ('k \<times> 'x) list" where
  "dict_update [] k v = [(k, v)]"
| "dict_update ((k', v') # kvs) k v =
     (if k' = k then (k, v) # kvs else (k', v') # dict_update kvs k v)"

fun calibrate_views ::
  "modules \<Rightarrow> 'a BLEngine \<Rightarrow> 'a::linorder series \<Rightarrow> ('a, 'a) dataframe \<Rightarrow>
   ('v::linorder, 'a) View list \<Rightarrow> ('v \<times> num) list \<Rightarrow> error + ('v \<times> num) list" where
  "calibrate_views env self market_weights market_covariance [] cov_by_view = Inr cov_by_view"
| "calibrate_views env self market_weights market_covariance (view # views) cov_by_view =
     (case confidence_to_variance env self view market_weights market_covariance of
        Inl e \<Rightarrow> Inl e
      | Inr var \<Rightarrow>
          calibrate_views env self market_weights market_covariance views
            (dict_update cov_by_view (view_id view) var))"

text \<open>\<^verbatim>\<open>np.diag\<close> of a vector: the vector on the diagonal, 0 elsewhere.\<close>

definition np_diag :: "num list \<Rightarrow> num list list" where
  "np_diag vs =
     map (\<lambda>i. map (\<lambda>j. if i = j then vs ! i else Some 0) [0..<length vs]) [0..<length vs]"

definition get_view_covariances_from_confidences ::
  "modules \<Rightarrow> 'a BLEngine \<Rightarrow> 'a::linorder series \<Rightarrow> ('a, 'a) dataframe \<Rightarrow>
   ('v::linorder, 'a) ViewCollection \<Rightarrow> error + ('v, 'v) dataframe" where
  "get_view_covariances_from_confidences env self market_weights market_covariance
       view_collection =
     (case calibrate_views env self market_weights market_covariance
             (get_all_views view_collection) [] of
        Inl e \<Rightarrow> Inl e
      | Inr cov_by_view \<Rightarrow>
          (let var_series = \<lparr>s_name = None, s_index = map fst cov_by_view,
                             s_values = map snd cov_by_view\<rparr>
           in DataFrame (np_diag (s_values var_series)) (s_index var_series)
                (s_index var_series)))"

text \<open>\<^verbatim>\<open>get_black_litterman_weights\<close> (lines 80-101).\<close>

definition get_black_litterman_weights ::
  "modules \<Rightarrow> 'a::linorder BLEngine \<Rightarrow> ('v::linorder, 'a) ViewCollection \<Rightarrow> string \<Rightarrow> string \<Rightarrow>
   error + 'a series" where
  "get_black_litterman_weights env self view_collection start_date' end_date =
     (case mde_get_market_weights (market_data_engine self) end_date of
        Inl e \<Rightarrow> Inl e
      | Inr market_weights \<Rightarrow>
     (case mde_get_annualised_cov_matrix (market_data_engine self) start_date' end_date of
        Inl e \<Rightarrow> Inl e
      | Inr market_cov \<Rightarrow>
     (let view_mat = get_view_matrix view_collection (asset_list (calc_settings self));
          view_out_performance = get_view_out_performances view_collection
      in case get_view_covariances_from_confidences env self market_weights market_cov
                view_collection of
           Inl e \<Rightarrow> Inl e
         | Inr view_cov \<Rightarrow>
        (case get_weights env self market_weights market_cov view_mat view_cov
                view_out_performance of
           Inl e \<Rightarrow> Inl e
         | Inr bl_weights \<Rightarrow>
             Inr (bl_weights\<lparr>s_name := Some (Weights_BLACK_LITTERMAN env)\<rparr>)))))"

section \<open>The closed form as the specification words it\<close>

text \<open>
  The Black-Litterman closed form on plain real matrices, rows as lists, with no labels:
  \<^verbatim>\<open>M = view_cov / tau + view_matrix . market_cov . view_matrix^T\<close>,
  \<^verbatim>\<open>adjustment_vector = view_out_performance / risk_aversion - view_matrix . market_cov . market_weights\<close>,
  \<^verbatim>\<open>posterior_weights = market_weights + view_matrix^T . M_inv . adjustment_vector\<close>.
  These definitions follow the specification, not the code; the solver of the code is
  compared with them.
\<close>

definition vec_dot :: "real list \<Rightarrow> real list \<Rightarrow> real" where
  "vec_dot xs ys = sum_list (map2 (*) xs ys)"

definition mat_col :: "real list list \<Rightarrow> nat \<Rightarrow> real list" where
  "mat_col B j = map (\<lambda>row. row ! j) B"

definition mat_vec :: "real list list \<Rightarrow> real list \<Rightarrow> real list" where
  "mat_vec A v = map (\<lambda>row. vec_dot row v) A"

definition mat_mul :: "real list list \<Rightarrow> real list list \<Rightarrow> nat \<Rightarrow> real list list" where
  "mat_mul A B n = map (\<lambda>row. map (\<lambda>j. vec_dot row (mat_col B j)) [0..<n]) A"

definition mat_transpose :: "real list list \<Rightarrow> nat \<Rightarrow> real list list" where
  "mat_transpose A n = map (mat_col A) [0..<n]"

definition mat_add :: "real list list \<Rightarrow> real list list \<Rightarrow> real list list" where
  "mat_add A B = map2 (map2 (+)) A B"

definition mat_div :: "real list list \<Rightarrow> real \<Rightarrow> real list list" where
  "mat_div A d = map (map (\<lambda>x. x / d)) A"

text \<open>A matrix of \<open>m\<close> rows and \<open>n\<close> columns.\<close>

definition shape :: "nat \<Rightarrow> nat \<Rightarrow> 'x list list \<Rightarrow> bool" where
  "shape m n A = (length A = m \<and> list_all (\<lambda>row. length row = n) A)"

definition spec_M ::
  "real \<Rightarrow> real list list \<Rightarrow> real list list \<Rightarrow> real list list \<Rightarrow> real list list" where
  "spec_M tau' view_cov view_matrix market_cov =
     mat_add (mat_div view_cov tau')
       (mat_mul (mat_mul view_matrix market_cov (length market_cov))
          (mat_transpose view_matrix (length market_cov)) (length view_matrix))"

definition spec_adjustment_vector ::
  "real \<Rightarrow> real list \<Rightarrow> real list list \<Rightarrow> real list list \<Rightarrow> real list \<Rightarrow> real list" where
  "spec_adjustment_vector risk_aversion' view_out_performance view_matrix market_cov
       market_weights =
     map2 (-) (map (\<lambda>x. x / risk_aversion') view_out_performance)
       (mat_vec (mat_mul view_matrix market_cov (length market_cov)) market_weights)"

definition spec_posterior_weights ::
  "real list \<Rightarrow> real list list \<Rightarrow> real list list \<Rightarrow> real list \<Rightarrow> real list" where
  "spec_posterior_weights market_weights view_matrix M_inv adjustment_vector =
     map2 (+) market_weights
       (mat_vec (mat_mul (mat_transpose view_matrix (length market_weights)) M_inv
                   (length view_matrix)) adjustment_vector)"

section \<open>A concrete engine\<close>

text \<open>
  The scenario of the specification: two assets \<open>A\<close> and \<open>B\<close> with market weights 0.6
  and 0.4, covariance \<open>[[0.04, 0.01], [0.01, 0.09]]\<close>, \<open>tau = 0.05\<close>,
  \<open>risk_aversion = 2.5\<close>, and the view "A outperforms B by 3%" held with confidence
  0.5. \<open>example_inv\<close> is the matrix inverse on the matrices of at most two rows that the
  scenarios build; \<open>example_minimize x ok\<close> is a minimiser that evaluates the objective
  at the starting point and reports the point \<open>x\<close> with the flag \<open>ok\<close>.
\<close>

fun example_inv :: "num list list \<Rightarrow> error + num list list" where
  "example_inv [] = Inr []"
| "example_inv [[Some a]] = (if a = 0 then Inl LinAlgError else Inr [[Some (1 / a)]])"
| "example_inv [[Some a, Some b], [Some c, Some d]] =
     (if a * d - b * c = 0 then Inl LinAlgError
      else Inr [[Some (d / (a * d - b * c)), Some (- b / (a * d - b * c))],
                [Some (- c / (a * d - b * c)), Some (a / (a * d - b * c))]])"
| "example_inv m = Inl LinAlgError"

definition example_minimize ::
  "num \<Rightarrow> bool \<Rightarrow> (num \<Rightarrow> error + num) \<Rightarrow> num \<Rightarrow> string \<Rightarrow> error + optimize_result" where
  "example_minimize x ok f x0 method =
     (case f x0 of Inl e \<Rightarrow> Inl e | Inr y \<Rightarrow> Inr \<lparr>res_x = [x], res_success = ok\<rparr>)"

definition example_env :: "num \<Rightarrow> bool \<Rightarrow> modules" where
  "example_env x ok =
     \<lparr>np_linalg_inv = example_inv, optimize_minimize = example_minimize x ok,
      Weights_MARKET = ''market'', Weights_BLACK_LITTERMAN = ''black_litterman''\<rparr>"

definition example_weights :: "string series" where
  "example_weights = \<lparr>s_name = None, s_index = [''A'', ''B''],
                      s_values = [Some (6 / 10), Some (4 / 10)]\<rparr>"

definition example_cov :: "(string, string) dataframe" where
  "example_cov = \<lparr>df_index = [''A'', ''B''], df_columns = [''A'', ''B''],
                  df_values = [[Some (4 / 100), Some (1 / 100)],
                               [Some (1 / 100), Some (9 / 100)]]\<rparr>"

definition example_mde :: "string market_data_engine" where
  "example_mde = \<lparr>mde_get_market_weights = (\<lambda>d. Inr example_weights),
                  mde_get_annualised_cov_matrix = (\<lambda>s e. Inr example_cov)\<rparr>"

definition example_settings :: "(string \<times> string) list \<Rightarrow> string CalculationSettings" where
  "example_settings universe =
     \<lparr>tau = 5 / 100, risk_aversion = 25 / 10, start_date = ''2020-01-01'',
      calculation_date = ''2020-12-31'', asset_universe = universe\<rparr>"

definition example_engine :: "string BLEngine" where
  "example_engine =
     BLEngine_init (\<lambda>s e. example_mde)
       (example_settings [(''A'', ''Asset A''), (''B'', ''Asset B'')])"

text \<open>The same market data under settings whose universe has a third asset \<open>C\<close>.\<close>

definition example_engine_C :: "string BLEngine" where
  "example_engine_C =
     BLEngine_init (\<lambda>s e. example_mde)
       (example_settings [(''A'', ''Asset A''), (''B'', ''Asset B''), (''C'', ''Asset C'')])"

definition example_view :: "nat \<Rightarrow> (nat, string) View" where
  "example_view i = \<lparr>view_id = i, view_name = ''A outperforms B by 3%'', confidence = 1 / 2,
                     out_performance = 3 / 100, allocation = [(''A'', 1), (''B'', - 1)]\<rparr>"

definition example_view_C :: "(nat, string) View" where
  "example_view_C = \<lparr>view_id = 1, view_name = ''C outperforms B by 3%'', confidence = 1 / 2,
                     out_performance = 3 / 100, allocation = [(''C'', 1), (''B'', - 1)]\<rparr>"

definition example_view_A :: "(nat, string) View" where
  "example_view_A = \<lparr>view_id = 2, view_name = ''A returns 5%'', confidence = 1 / 2,
                     out_performance = 5 / 100, allocation = [(''A'', 1)]\<rparr>"

text \<open>
  The view of the scenario held with confidence 1. The exact minimiser of its
  calibration objective is the variance 0. \<^verbatim>\<open>scipy.optimize.minimize\<close> with
  \<^verbatim>\<open>method="BFGS"\<close> and no gradient differentiates the objective by forward differences
  of step \<open>1.49 \<cdot> 10\<^sup>-\<^sup>8\<close>, whose zero lies half a step to the left of the exact minimiser, so
  that the search ends at a point a few \<open>10\<^sup>-\<^sup>9\<close> below 0. \<open>descent_minimize x ok\<close> is a
  minimiser that evaluates the objective at the starting point and at \<open>x\<close> and reports
  the point \<open>x\<close> with the flag \<open>ok\<close> when the objective is not larger there; it
  reports the starting point and failure otherwise.
\<close>

definition num_le :: "num \<Rightarrow> num \<Rightarrow> bool" where
  "num_le a b = (case a of None \<Rightarrow> False
                 | Some x \<Rightarrow> (case b of None \<Rightarrow> False | Some y \<Rightarrow> x \<le> y))"

definition descent_minimize ::
  "num \<Rightarrow> bool \<Rightarrow> (num \<Rightarrow> error + num) \<Rightarrow> num \<Rightarrow> string \<Rightarrow> error + optimize_result" where
  "descent_minimize x ok f x0 method =
     (case f x0 of
        Inl e \<Rightarrow> Inl e
      | Inr y0 \<Rightarrow>
          (case f x of
             Inl e \<Rightarrow> Inl e
           | Inr y \<Rightarrow> if num_le y y0 then Inr \<lparr>res_x = [x], res_success = ok\<rparr>
                      else Inr \<lparr>res_x = [x0], res_success = False\<rparr>))"

definition descent_env :: "num \<Rightarrow> bool \<Rightarrow> modules" where
  "descent_env x ok =
     \<lparr>np_linalg_inv = example_inv, optimize_minimize = descent_minimize x ok,
      Weights_MARKET = ''market'', Weights_BLACK_LITTERMAN = ''black_litterman''\<rparr>"

definition full_confidence_view :: "(nat, string) View" where
  "full_confidence_view =
     \<lparr>view_id = 1, view_name = ''A outperforms B by 3%'', confidence = 1,
      out_performance = 3 / 100, allocation = [(''A'', 1), (''B'', - 1)]\<rparr>"

section \<open>Evaluation and auxiliary facts\<close>

lemmas example_defs = example_env_def example_minimize_def example_weights_def example_cov_def
  example_settings_def example_mde_def example_engine_def example_engine_C_def example_view_def
  example_view_C_def example_view_A_def BLEngine_init_def num_le_def descent_minimize_def
  descent_env_def full_confidence_view_def

lemmas engine_defs = get_black_litterman_weights_def get_weights_def mat_1_of_def mat_2_of_def
  get_view_covariances_from_confidences_def confidence_to_variance_def
  get_view_target_weights_def error_vs_target_weights_def get_sum_squares_error_def
  get_view_matrix_def get_view_out_performances_def get_view_data_frame_def allocation_row_def
  get_all_views_def asset_list_def np_diag_def get_market_weights_def

lemmas pandas_defs = df_dot_def df_dot_series_def df_T_def df_add_def df_divide_def
  series_divide_def series_scale_def series_binop_def series_add_def series_subtract_def
  DataFrame_def reindex_def index_union_def np_dot_mm_def np_dot_mv_def np_dot_vv_def
  column_def py_sum_def num_add_def num_sub_def num_mul_def num_div_def

lemma index_union_same [simp]: "index_union a a = a"
  by (simp add: index_union_def)

lemma reindex_same [simp]: "reindex labels xs fill labels = xs"
  by (simp add: reindex_def)

lemma np_dot_vv_finite: "np_dot_vv (map Some xs) (map Some ys) = Some (vec_dot xs ys)"
proof (induction xs arbitrary: ys)
  case Nil
  then show ?case by (simp add: np_dot_vv_def vec_dot_def)
next
  case (Cons x xs)
  then show ?case
    by (cases ys) (simp_all add: np_dot_vv_def vec_dot_def num_add_def num_mul_def)
qed

lemma column_finite:
  "list_all (\<lambda>row. j < length row) B \<Longrightarrow> column (map (map Some) B) j = map Some (mat_col B j)"
  by (induction B) (simp_all add: column_def mat_col_def)

lemma shape_col: "shape m n B \<Longrightarrow> j < n \<Longrightarrow> list_all (\<lambda>row. j < length row) B"
  by (simp add: shape_def list_all_iff)

lemma np_dot_mm_finite:
  assumes "shape m n B"
  shows "np_dot_mm (map (map Some) A) (map (map Some) B) n = map (map Some) (mat_mul A B n)"
  using assms
  by (simp add: np_dot_mm_def mat_mul_def column_finite shape_col np_dot_vv_finite)

lemma np_dot_mv_finite:
  "np_dot_mv (map (map Some) A) (map Some v) = map Some (mat_vec A v)"
  by (simp add: np_dot_mv_def mat_vec_def np_dot_vv_finite)

lemma transpose_finite:
  assumes "shape m n A"
  shows "map (column (map (map Some) A)) [0..<n] = map (map Some) (mat_transpose A n)"
  using assms by (simp add: mat_transpose_def column_finite shape_col)

lemma map2_add_finite:
  "map2 num_add (map Some xs) (map Some ys) = map Some (map2 (+) xs ys)"
proof (induction xs arbitrary: ys)
  case Nil
  then show ?case by simp
next
  case (Cons x xs)
  then show ?case by (cases ys) (simp_all add: num_add_def)
qed

lemma map2_sub_finite:
  "map2 num_sub (map Some xs) (map Some ys) = map Some (map2 (-) xs ys)"
proof (induction xs arbitrary: ys)
  case Nil
  then show ?case by simp
next
  case (Cons x xs)
  then show ?case by (cases ys) (simp_all add: num_sub_def)
qed

lemma mat_add_finite:
  "map2 (map2 num_add) (map (map Some) A) (map (map Some) B) = map (map Some) (mat_add A B)"
proof (induction A arbitrary: B)
  case Nil
  then show ?case by (simp add: mat_add_def)
next
  case (Cons a A)
  then show ?case by (cases B) (simp_all add: mat_add_def map2_add_finite)
qed

lemma mat_div_finite:
  "d \<noteq> 0 \<Longrightarrow> map (map (\<lambda>x. num_div x d)) (map (map Some) A) = map (map Some) (mat_div A d)"
  by (simp add: mat_div_def num_div_def)

lemma vec_div_finite:
  "d \<noteq> 0 \<Longrightarrow> map (\<lambda>x. num_div x d) (map Some v) = map Some (map (\<lambda>x. x / d) v)"
  by (simp add: num_div_def)

lemma df_dot_aligned:
  "df_columns a = df_index b \<Longrightarrow>
   df_dot a b = Inr \<lparr>df_index = df_index a, df_columns = df_columns b,
                    df_values = np_dot_mm (df_values a) (df_values b) (length (df_columns b))\<rparr>"
  by (simp add: df_dot_def Let_def)

lemma df_dot_series_aligned:
  "df_columns a = s_index s \<Longrightarrow>
   df_dot_series a s = Inr \<lparr>s_name = None, s_index = df_index a,
                           s_values = np_dot_mv (df_values a) (s_values s)\<rparr>"
  by (simp add: df_dot_series_def Let_def)

lemma df_add_aligned:
  "df_index a = df_index b \<Longrightarrow> df_columns a = df_columns b \<Longrightarrow>
   df_add a b = \<lparr>df_index = df_index a, df_columns = df_columns a,
                 df_values = map2 (map2 num_add) (df_values a) (df_values b)\<rparr>"
  by (simp add: df_add_def Let_def)

lemma series_binop_aligned:
  "s_index a = s_index b \<Longrightarrow>
   series_binop f a b = \<lparr>s_name = (if s_name a = s_name b then s_name a else None),
                         s_index = s_index a, s_values = map2 f (s_values a) (s_values b)\<rparr>"
  by (simp add: series_binop_def Let_def)

lemma shape_transpose: "shape n (length A) (mat_transpose A n)"
  by (simp add: shape_def mat_transpose_def mat_col_def list_all_iff)

lemma mat_1_of_finite:
  assumes "tau cs \<noteq> 0" and "shape n n S" and "length assets = n" and "shape k n P" and "length ids = k"
  shows "mat_1_of cs \<lparr>df_index = assets, df_columns = assets, df_values = map (map Some) S\<rparr>
           \<lparr>df_index = ids, df_columns = assets, df_values = map (map Some) P\<rparr>
           \<lparr>df_index = ids, df_columns = ids, df_values = map (map Some) Om\<rparr>
         = Inr \<lparr>df_index = ids, df_columns = ids,
                df_values = map (map Some) (spec_M (tau cs) Om P S)\<rparr>"
proof -
  have n: "length S = n" and k: "length P = k" using assms by (simp_all add: shape_def)
  have 1: "np_dot_mm (map (map Some) P) (map (map Some) S) n = map (map Some) (mat_mul P S n)"
    using assms(2) by (rule np_dot_mm_finite)
  have 2: "map (column (map (map Some) P)) [0..<n] = map (map Some) (mat_transpose P n)"
    using assms(4) by (rule transpose_finite)
  have 3: "np_dot_mm (map (map Some) (mat_mul P S n)) (map (map Some) (mat_transpose P n)) k
           = map (map Some) (mat_mul (mat_mul P S n) (mat_transpose P n) k)"
    using shape_transpose[of n P] k by (simp add: np_dot_mm_finite)
  show ?thesis
    using assms(1,3,5) n k
    by (simp add: mat_1_of_def df_dot_aligned df_T_def 1 2 3 df_add_aligned df_divide_def
        mat_div_finite mat_add_finite spec_M_def del: map_map)
qed


lemma mat_2_of_finite:
  assumes "risk_aversion cs \<noteq> 0" and "shape n n S" and "length assets = n"
  shows "mat_2_of cs \<lparr>s_name = nm, s_index = assets, s_values = map Some w\<rparr>
           \<lparr>df_index = assets, df_columns = assets, df_values = map (map Some) S\<rparr>
           \<lparr>df_index = ids, df_columns = assets, df_values = map (map Some) P\<rparr>
           \<lparr>s_name = qn, s_index = ids, s_values = map Some q\<rparr>
         = Inr \<lparr>s_name = None, s_index = ids,
                s_values = map Some (spec_adjustment_vector (risk_aversion cs) q P S w)\<rparr>"
proof -
  have n: "length S = n" using assms by (simp add: shape_def)
  have 1: "np_dot_mm (map (map Some) P) (map (map Some) S) n = map (map Some) (mat_mul P S n)"
    using assms(2) by (rule np_dot_mm_finite)
  show ?thesis
    using assms(1,3) n
    by (simp add: mat_2_of_def df_dot_aligned 1 df_dot_series_aligned np_dot_mv_finite
        series_subtract_def series_binop_aligned series_divide_def vec_div_finite
        map2_sub_finite spec_adjustment_vector_def del: map_map)
qed

lemma num_add_zero [simp]: "num_add x (Some 0) = x"
  by (cases x) (simp_all add: num_add_def)

lemma map2_num_add_zeros:
  "length xs = n \<Longrightarrow> map2 num_add xs (replicate n (Some 0)) = xs"
proof (induction xs arbitrary: n)
  case Nil
  then show ?case by simp
next
  case (Cons x xs)
  then show ?case by (cases n) simp_all
qed

lemma column_Nil [simp]: "column [] j = []"
  by (simp add: column_def)

lemma DataFrame_1x1:
  "DataFrame [[x]] [i] [i] = Inr \<lparr>df_index = [i], df_columns = [i], df_values = [[x]]\<rparr>"
  by (simp add: DataFrame_def)

lemma map2_interpolate:
  "map2 num_add (map Some m)
     (map (\<lambda>x. num_mul (Some c) x) (map2 num_sub (map Some f) (map Some m)))
   = map Some (map2 (\<lambda>a b. a + c * (b - a)) m f)"
proof (induction m arbitrary: f)
  case Nil
  then show ?case by simp
next
  case (Cons a m)
  then show ?case by (cases f) (simp_all add: num_add_def num_mul_def num_sub_def)
qed

lemma map2_fst: "length xs = length ys \<Longrightarrow> map2 (\<lambda>a b. a) xs ys = xs"
  by (induction xs ys rule: list_induct2) simp_all

lemma map2_snd: "length xs = length ys \<Longrightarrow> map2 (\<lambda>a b. b) xs ys = ys"
  by (induction xs ys rule: list_induct2) simp_all

lemma dict_update_fresh: "k \<notin> fst ` set kvs \<Longrightarrow> dict_update kvs k v = kvs @ [(k, v)]"
  by (induction kvs) auto

lemma calibrate_views_distinct:
  "list_all2 (\<lambda>view var. confidence_to_variance env self view mw mc = Inr var) views vars \<Longrightarrow>
   distinct (map view_id views) \<Longrightarrow> view_id ` set views \<inter> fst ` set acc = {} \<Longrightarrow>
   calibrate_views env self mw mc views acc = Inr (acc @ zip (map view_id views) vars)"
proof (induction views vars arbitrary: acc rule: list_all2_induct)
  case Nil
  then show ?case by simp
next
  case (Cons view views var vars)
  have fresh: "view_id view \<notin> fst ` set acc"
    using Cons.prems(2) by auto
  have disj: "view_id ` set views \<inter> fst ` set (acc @ [(view_id view, var)]) = {}"
    using Cons.prems by auto
  show ?case
    using Cons.hyps(1) Cons.prems(1) Cons.IH[OF _ disj]
    by (simp add: dict_update_fresh[OF fresh])
qed

lemma calibrate_views_Inr:
  "calibrate_views env self mw mc views acc = Inr r \<Longrightarrow> view \<in> set views \<Longrightarrow>
   \<exists>var. confidence_to_variance env self view mw mc = Inr var"
proof (induction views arbitrary: acc)
  case Nil
  then show ?case by simp
next
  case (Cons v views)
  then show ?case by (auto split: sum.splits)
qed

lemma np_diag_shape:
  "length (np_diag vs) = length vs"
  "i < length vs \<Longrightarrow> length (np_diag vs ! i) = length vs"
  "i < length vs \<Longrightarrow> j < length vs \<Longrightarrow> np_diag vs ! i ! j = (if i = j then vs ! i else Some 0)"
  by (simp_all add: np_diag_def)

lemma DataFrame_np_diag:
  "length idx = length vs \<Longrightarrow>
   DataFrame (np_diag vs) idx idx = Inr \<lparr>df_index = idx, df_columns = idx, df_values = np_diag vs\<rparr>"
  by (simp add: DataFrame_def np_diag_def list_all_iff)


lemma length_spec_posterior_weights:
  "length (spec_posterior_weights w P M_inv adj) = length w"
  by (simp add: spec_posterior_weights_def mat_vec_def mat_mul_def mat_transpose_def)

section \<open>The weight solver\<close>

text \<open>
  Claim C1. On inputs that are aligned (the market weights, both axes of the market
  covariance and the columns of the view matrix carry the asset labels; the rows of the
  view matrix, both axes of the view covariance and the out-performance vector carry the
  view labels), hold finite numbers and have positive \<open>tau\<close> and \<open>risk_aversion\<close>,
  and for which \<^verbatim>\<open>np.linalg.inv\<close> returns \<open>M_inv\<close> for the matrix \<open>M\<close> of the
  specification, \<^verbatim>\<open>_get_weights\<close> returns
  \<open>market_weights + P\<^sup>T \<cdot> M_inv \<cdot> (Q / risk_aversion - P \<cdot> market_cov \<cdot> market_weights)\<close>,
  a Series with the index and the length of the market weights.
\<close>

theorem get_weights_formula:
  assumes "0 < tau (calc_settings self)" and "0 < risk_aversion (calc_settings self)"
    and "length w = length assets"
    and "shape (length assets) (length assets) S"
    and "shape (length ids) (length assets) P"
    and "shape (length ids) (length ids) M_inv"
    and "np_linalg_inv env (map (map Some) (spec_M (tau (calc_settings self)) Om P S))
           = Inr (map (map Some) M_inv)"
  shows "get_weights env self
           \<lparr>s_name = nm, s_index = assets, s_values = map Some w\<rparr>
           \<lparr>df_index = assets, df_columns = assets, df_values = map (map Some) S\<rparr>
           \<lparr>df_index = ids, df_columns = assets, df_values = map (map Some) P\<rparr>
           \<lparr>df_index = ids, df_columns = ids, df_values = map (map Some) Om\<rparr>
           \<lparr>s_name = qn, s_index = ids, s_values = map Some q\<rparr>
         = Inr \<lparr>s_name = None, s_index = assets,
                s_values = map Some
                  (spec_posterior_weights w P M_inv
                     (spec_adjustment_vector (risk_aversion (calc_settings self)) q P S w))\<rparr>
       \<and> length (spec_posterior_weights w P M_inv
                   (spec_adjustment_vector (risk_aversion (calc_settings self)) q P S w))
         = length w"
proof -
  let ?cs = "calc_settings self"
  have k: "length P = length ids" and mi: "length M_inv = length ids"
    using assms by (simp_all add: shape_def)
  have m1: "mat_1_of ?cs \<lparr>df_index = assets, df_columns = assets, df_values = map (map Some) S\<rparr>
           \<lparr>df_index = ids, df_columns = assets, df_values = map (map Some) P\<rparr>
           \<lparr>df_index = ids, df_columns = ids, df_values = map (map Some) Om\<rparr>
         = Inr \<lparr>df_index = ids, df_columns = ids,
                df_values = map (map Some) (spec_M (tau ?cs) Om P S)\<rparr>"
    using assms by (intro mat_1_of_finite[where n = "length assets" and k = "length ids"]) simp_all
  have m2: "mat_2_of ?cs \<lparr>s_name = nm, s_index = assets, s_values = map Some w\<rparr>
           \<lparr>df_index = assets, df_columns = assets, df_values = map (map Some) S\<rparr>
           \<lparr>df_index = ids, df_columns = assets, df_values = map (map Some) P\<rparr>
           \<lparr>s_name = qn, s_index = ids, s_values = map Some q\<rparr>
         = Inr \<lparr>s_name = None, s_index = ids,
                s_values = map Some (spec_adjustment_vector (risk_aversion ?cs) q P S w)\<rparr>"
    using assms by (intro mat_2_of_finite[where n = "length assets"]) simp_all
  have df: "DataFrame (map (map Some) M_inv) ids ids
            = Inr \<lparr>df_index = ids, df_columns = ids, df_values = map (map Some) M_inv\<rparr>"
    using assms(6) by (simp add: DataFrame_def shape_def list_all_iff)
  have t: "map (column (map (map Some) P)) [0..<length assets]
           = map (map Some) (mat_transpose P (length assets))"
    using assms(5) by (rule transpose_finite)
  have pm: "np_dot_mm (map (map Some) (mat_transpose P (length assets))) (map (map Some) M_inv)
              (length ids)
            = map (map Some) (mat_mul (mat_transpose P (length assets)) M_inv (length ids))"
    using assms(6) by (rule np_dot_mm_finite)
  have "get_weights env self
           \<lparr>s_name = nm, s_index = assets, s_values = map Some w\<rparr>
           \<lparr>df_index = assets, df_columns = assets, df_values = map (map Some) S\<rparr>
           \<lparr>df_index = ids, df_columns = assets, df_values = map (map Some) P\<rparr>
           \<lparr>df_index = ids, df_columns = ids, df_values = map (map Some) Om\<rparr>
           \<lparr>s_name = qn, s_index = ids, s_values = map Some q\<rparr>
         = Inr \<lparr>s_name = None, s_index = assets,
                s_values = map Some
                  (spec_posterior_weights w P M_inv
                     (spec_adjustment_vector (risk_aversion (calc_settings self)) q P S w))\<rparr>"
    using assms(3) k
    by (simp add: get_weights_def m1 assms(7) df m2 df_T_def t df_dot_aligned pm
        df_dot_series_aligned np_dot_mv_finite series_add_def series_binop_aligned
        map2_add_finite spec_posterior_weights_def del: map_map)
  then show ?thesis
    using length_spec_posterior_weights by blast
qed

theorem get_weights_formula_witness:
  "get_weights (example_env (Some 0) True) example_engine example_weights example_cov
     (get_view_matrix [example_view 1] [''A'', ''B''])
     \<lparr>df_index = [1], df_columns = [1], df_values = [[Some (55 / 10000)]]\<rparr>
     (get_view_out_performances [example_view 1])
   = Inr \<lparr>s_name = None, s_index = [''A'', ''B''],
          s_values = [Some (79 / 110), Some (31 / 110)]\<rparr>"
proof -
  let ?S = "[[4 / 100, 1 / 100], [1 / 100, 9 / 100]] :: real list list"
  let ?P = "[[1, - 1]] :: real list list"
  have inv: "np_linalg_inv (example_env (Some 0) True)
               (map (map Some) (spec_M (tau (calc_settings example_engine))
                                  [[55 / 10000]] ?P ?S))
             = Inr (map (map Some) [[50 / 11]])"
    by (simp add: example_defs spec_M_def mat_add_def mat_div_def mat_mul_def mat_transpose_def
        mat_col_def vec_dot_def)
  have t: "0 < tau (calc_settings example_engine)"
    and r: "0 < risk_aversion (calc_settings example_engine)"
    by (simp_all add: example_defs)
  have s1: "shape (length [''A'', ''B'']) (length [''A'', ''B'']) ?S"
    and s2: "shape (length [1::nat]) (length [''A'', ''B'']) ?P"
    and s3: "shape (length [1::nat]) (length [1::nat]) ([[50 / 11]] :: real list list)"
    and s4: "length ([6 / 10, 4 / 10] :: real list) = length [''A'', ''B'']"
    by (simp_all add: shape_def)
  show ?thesis
    using get_weights_formula [OF t r s4 s1 s2 s3 inv, of None None "[3 / 100]"]
    by (simp add: example_defs get_view_matrix_def get_view_out_performances_def
        allocation_row_def spec_posterior_weights_def spec_adjustment_vector_def mat_vec_def
        mat_mul_def mat_transpose_def mat_col_def vec_dot_def)
qed

text \<open>
  Claim C2. With no view at all the view matrix has no row, and the out-performance
  vector and the view covariance are empty; on market data aligned with the asset
  universe, and with \<^verbatim>\<open>np.linalg.inv\<close> returning the empty matrix for the empty matrix,
  \<^verbatim>\<open>get_black_litterman_weights\<close> returns the market weights, labels and values
  unchanged, under the name \<^verbatim>\<open>Weights.BLACK_LITTERMAN\<close>.
\<close>

theorem zero_view_identity:
  fixes self :: "'a::linorder BLEngine"
  assumes "mde_get_market_weights (market_data_engine self) end_date = Inr market_weights"
    and "mde_get_annualised_cov_matrix (market_data_engine self) start end_date = Inr market_cov"
    and "np_linalg_inv env [] = Inr []"
    and "s_index market_weights = asset_list (calc_settings self)"
    and "df_index market_cov = asset_list (calc_settings self)"
    and "df_columns market_cov = asset_list (calc_settings self)"
    and "length (s_values market_weights) = length (s_index market_weights)"
  shows "get_black_litterman_weights env self ([] :: ('b::linorder, 'a) View list) start end_date
         = Inr (market_weights\<lparr>s_name := Some (Weights_BLACK_LITTERMAN env)\<rparr>)"
proof -
  let ?assets = "asset_list (calc_settings self)"
  let ?P = "get_view_matrix [] ?assets :: ('b, 'a) dataframe"
  let ?Q = "get_view_out_performances ([] :: ('b, 'a) View list)"
  let ?empty = "\<lparr>df_index = [], df_columns = [], df_values = []\<rparr> :: ('b, 'b) dataframe"
  have cov: "get_view_covariances_from_confidences env self market_weights market_cov []
             = Inr ?empty"
    by (simp add: get_view_covariances_from_confidences_def get_all_views_def np_diag_def
        DataFrame_def)
  have m1: "mat_1_of (calc_settings self) market_cov ?P ?empty = Inr ?empty"
    using assms(5,6)
    by (simp add: mat_1_of_def get_view_matrix_def df_dot_aligned df_T_def np_dot_mm_def
        df_add_aligned df_divide_def)
  have m2: "mat_2_of (calc_settings self) market_weights market_cov ?P ?Q
            = Inr \<lparr>s_name = None, s_index = [], s_values = []\<rparr>"
    using assms(4,5,6)
    by (simp add: mat_2_of_def get_view_matrix_def get_view_out_performances_def df_dot_aligned
        np_dot_mm_def df_dot_series_aligned np_dot_mv_def series_subtract_def
        series_binop_aligned series_divide_def)
  have pt: "df_dot (df_T ?P) ?empty
            = Inr \<lparr>df_index = ?assets, df_columns = [],
                   df_values = replicate (length ?assets) []\<rparr>"
    by (simp add: get_view_matrix_def df_T_def df_dot_aligned np_dot_mm_def map_replicate_const)
  have adj: "df_dot_series \<lparr>df_index = ?assets, df_columns = ([] :: 'b list),
                             df_values = replicate (length ?assets) []\<rparr>
               \<lparr>s_name = None, s_index = [], s_values = []\<rparr>
             = Inr \<lparr>s_name = None, s_index = ?assets,
                    s_values = replicate (length ?assets) (Some 0)\<rparr>"
    by (simp add: df_dot_series_aligned np_dot_mv_def np_dot_vv_def)
  have gw: "get_weights env self market_weights market_cov ?P ?empty ?Q
            = Inr \<lparr>s_name = None, s_index = s_index market_weights,
                   s_values = s_values market_weights\<rparr>"
    using assms(4,7)
    by (simp add: get_weights_def m1 assms(3) DataFrame_def m2 pt adj series_add_def
        series_binop_aligned map2_num_add_zeros)
  show ?thesis
    by (simp add: get_black_litterman_weights_def assms(1,2) cov gw)
qed

theorem zero_view_identity_witness:
  "get_black_litterman_weights (example_env (Some 0) True) example_engine
     ([] :: (nat, string) View list) ''2020-01-01'' ''2020-12-31''
   = Inr \<lparr>s_name = Some ''black_litterman'', s_index = [''A'', ''B''],
          s_values = [Some (6 / 10), Some (4 / 10)]\<rparr>"
proof -
  have w: "mde_get_market_weights (market_data_engine example_engine) ''2020-12-31''
           = Inr example_weights"
    and c: "mde_get_annualised_cov_matrix (market_data_engine example_engine) ''2020-01-01''
              ''2020-12-31'' = Inr example_cov"
    and i: "np_linalg_inv (example_env (Some 0) True) [] = Inr []"
    and a1: "s_index example_weights = asset_list (calc_settings example_engine)"
    and a2: "df_index example_cov = asset_list (calc_settings example_engine)"
    and a3: "df_columns example_cov = asset_list (calc_settings example_engine)"
    and l: "length (s_values example_weights) = length (s_index example_weights)"
    by (simp_all add: example_defs asset_list_def)
  show ?thesis
    using zero_view_identity [OF w c i a1 a2 a3 l, where ?'b = nat]
    by (simp add: example_defs)
qed

section \<open>Calibration of a view\<close>

text \<open>
  Claim C3. The calibration of a view calls the weight solver for the full-confidence
  weights with a view matrix of one row, the allocation of that view, an
  out-performance vector of one entry, that of the view, and a view covariance of one
  row and one column whose entry is 0, all three labelled by the id of the view; it has
  no access to the other views of a collection. The minimisation then runs on the
  target weights interpolated from that result. Hence, when the calibration of a
  collection returns, the solver has returned full-confidence weights for the one-row
  inputs of every view of the collection.
\<close>

theorem calibration_single_view:
  "confidence_to_variance env self view market_weights market_covariance =
     (case get_weights env self market_weights market_covariance
             \<lparr>df_index = [view_id view], df_columns = asset_list (calc_settings self),
              df_values = [allocation_row view (asset_list (calc_settings self))]\<rparr>
             \<lparr>df_index = [view_id view], df_columns = [view_id view], df_values = [[Some 0]]\<rparr>
             \<lparr>s_name = None, s_index = [view_id view],
              s_values = [Some (out_performance view)]\<rparr> of
        Inl e \<Rightarrow> Inl e
      | Inr full_confidence_weights \<Rightarrow>
          (case optimize_minimize env
                  (error_vs_target_weights env self view market_weights market_covariance
                     (get_view_data_frame view (asset_list (calc_settings self)))
                     \<lparr>s_name = None, s_index = [view_id view],
                      s_values = [Some (out_performance view)]\<rparr>
                     (series_add market_weights
                        (series_scale (confidence view)
                           (series_subtract full_confidence_weights market_weights))))
                  (Some (1 / 10)) ''BFGS'' of
             Inl e \<Rightarrow> Inl e
           | Inr variance \<Rightarrow>
               (case res_x variance of [] \<Rightarrow> Inl IndexError | x0 # _ \<Rightarrow> Inr x0)))
   \<and> (get_view_covariances_from_confidences env self market_weights market_covariance
         view_collection = Inr view_cov
       \<and> view \<in> set (get_all_views view_collection)
       \<longrightarrow> (\<exists>full_confidence_weights.
              get_weights env self market_weights market_covariance
                \<lparr>df_index = [view_id view], df_columns = asset_list (calc_settings self),
                 df_values = [allocation_row view (asset_list (calc_settings self))]\<rparr>
                \<lparr>df_index = [view_id view], df_columns = [view_id view],
                 df_values = [[Some 0]]\<rparr>
                \<lparr>s_name = None, s_index = [view_id view],
                 s_values = [Some (out_performance view)]\<rparr>
              = Inr full_confidence_weights))"
proof (intro conjI impI)
  show eq: "confidence_to_variance env self view market_weights market_covariance =
     (case get_weights env self market_weights market_covariance
             \<lparr>df_index = [view_id view], df_columns = asset_list (calc_settings self),
              df_values = [allocation_row view (asset_list (calc_settings self))]\<rparr>
             \<lparr>df_index = [view_id view], df_columns = [view_id view], df_values = [[Some 0]]\<rparr>
             \<lparr>s_name = None, s_index = [view_id view],
              s_values = [Some (out_performance view)]\<rparr> of
        Inl e \<Rightarrow> Inl e
      | Inr full_confidence_weights \<Rightarrow>
          (case optimize_minimize env
                  (error_vs_target_weights env self view market_weights market_covariance
                     (get_view_data_frame view (asset_list (calc_settings self)))
                     \<lparr>s_name = None, s_index = [view_id view],
                      s_values = [Some (out_performance view)]\<rparr>
                     (series_add market_weights
                        (series_scale (confidence view)
                           (series_subtract full_confidence_weights market_weights))))
                  (Some (1 / 10)) ''BFGS'' of
             Inl e \<Rightarrow> Inl e
           | Inr variance \<Rightarrow>
               (case res_x variance of [] \<Rightarrow> Inl IndexError | x0 # _ \<Rightarrow> Inr x0)))"
    by (simp add: confidence_to_variance_def get_view_target_weights_def DataFrame_1x1
        get_view_data_frame_def Let_def split: sum.splits)
  assume a: "get_view_covariances_from_confidences env self market_weights market_covariance
               view_collection = Inr view_cov
             \<and> view \<in> set (get_all_views view_collection)"
  then obtain cov_by_view where
    "calibrate_views env self market_weights market_covariance (get_all_views view_collection)
       [] = Inr cov_by_view"
    by (auto simp add: get_view_covariances_from_confidences_def split: sum.splits)
  with a obtain var where
    "confidence_to_variance env self view market_weights market_covariance = Inr var"
    using calibrate_views_Inr by blast
  with eq show "\<exists>full_confidence_weights.
              get_weights env self market_weights market_covariance
                \<lparr>df_index = [view_id view], df_columns = asset_list (calc_settings self),
                 df_values = [allocation_row view (asset_list (calc_settings self))]\<rparr>
                \<lparr>df_index = [view_id view], df_columns = [view_id view],
                 df_values = [[Some 0]]\<rparr>
                \<lparr>s_name = None, s_index = [view_id view],
                 s_values = [Some (out_performance view)]\<rparr>
              = Inr full_confidence_weights"
    by (auto split: sum.splits)
qed

theorem calibration_single_view_witness:
  "get_view_covariances_from_confidences (example_env (Some (55 / 10000)) True) example_engine
     example_weights example_cov [example_view 1, example_view 2]
   = Inr \<lparr>df_index = [1, 2], df_columns = [1, 2],
          df_values = [[Some (55 / 10000), Some 0], [Some 0, Some (55 / 10000)]]\<rparr>
   \<and> example_view 2 \<in> set (get_all_views [example_view 1, example_view 2])
   \<and> (\<exists>full_confidence_weights.
         get_weights (example_env (Some (55 / 10000)) True) example_engine example_weights
           example_cov
           \<lparr>df_index = [2 :: nat], df_columns = [''A'', ''B''],
            df_values = [[Some 1, Some (- 1)]]\<rparr>
           \<lparr>df_index = [2], df_columns = [2], df_values = [[Some 0]]\<rparr>
           \<lparr>s_name = None, s_index = [2], s_values = [Some (3 / 100)]\<rparr>
         = Inr full_confidence_weights)"
proof -
  let ?env = "example_env (Some (55 / 10000)) True"
  let ?vc = "[example_view 1, example_view 2]"
  let ?cov = "\<lparr>df_index = [1, 2], df_columns = [1, 2],
               df_values = [[Some (55 / 10000), Some 0], [Some 0, Some (55 / 10000)]]\<rparr>
              :: (nat, nat) dataframe"
  have c: "get_view_covariances_from_confidences ?env example_engine example_weights
             example_cov ?vc = Inr ?cov"
    by (simp add: example_defs engine_defs pandas_defs Let_def)
  have v: "example_view 2 \<in> set (get_all_views ?vc)"
    by (simp add: get_all_views_def)
  have "\<exists>full_confidence_weights.
          get_weights ?env example_engine example_weights example_cov
            \<lparr>df_index = [view_id (example_view 2)],
             df_columns = asset_list (calc_settings example_engine),
             df_values = [allocation_row (example_view 2)
                            (asset_list (calc_settings example_engine))]\<rparr>
            \<lparr>df_index = [view_id (example_view 2)], df_columns = [view_id (example_view 2)],
             df_values = [[Some 0]]\<rparr>
            \<lparr>s_name = None, s_index = [view_id (example_view 2)],
             s_values = [Some (out_performance (example_view 2))]\<rparr>
          = Inr full_confidence_weights"
    using calibration_single_view [of ?env example_engine "example_view 2" example_weights
        example_cov ?vc ?cov] c v
    by blast
  moreover have "view_id (example_view 2) = 2"
    and "out_performance (example_view 2) = 3 / 100"
    and "asset_list (calc_settings example_engine) = [''A'', ''B'']"
    and "allocation_row (example_view 2) [''A'', ''B''] = [Some 1, Some (- 1)]"
    by (simp_all add: example_defs asset_list_def allocation_row_def)
  ultimately have "\<exists>full_confidence_weights.
         get_weights ?env example_engine example_weights example_cov
           \<lparr>df_index = [2 :: nat], df_columns = [''A'', ''B''],
            df_values = [[Some 1, Some (- 1)]]\<rparr>
           \<lparr>df_index = [2], df_columns = [2], df_values = [[Some 0]]\<rparr>
           \<lparr>s_name = None, s_index = [2], s_values = [Some (3 / 100)]\<rparr>
         = Inr full_confidence_weights"
    by simp
  with c v show ?thesis by blast
qed

text \<open>
  Claim C4. When the solver returns finite full-confidence weights on the index of the
  market weights, the target weights of the calibration are, entry by entry,
  \<open>market_weight + confidence \<cdot> (full_confidence_weight - market_weight)\<close>: the market
  weights at confidence 0 and the full-confidence weights at confidence 1.
\<close>

theorem target_weights_interpolation:
  assumes "get_weights env self market_weights market_covariance view_matrix
             \<lparr>df_index = [view_id view], df_columns = [view_id view], df_values = [[Some 0]]\<rparr>
             view_out_performance = Inr full_confidence_weights"
    and "s_index full_confidence_weights = s_index market_weights"
    and "s_values market_weights = map Some m"
    and "s_values full_confidence_weights = map Some f"
    and "length f = length m"
  shows "\<exists>target. get_view_target_weights env self view market_weights market_covariance
                     view_matrix view_out_performance = Inr target
           \<and> s_index target = s_index market_weights
           \<and> s_values target = map Some (map2 (\<lambda>a b. a + confidence view * (b - a)) m f)
           \<and> (confidence view = 0 \<longrightarrow> s_values target = s_values market_weights)
           \<and> (confidence view = 1 \<longrightarrow> s_values target = s_values full_confidence_weights)"
  using assms
  by (simp add: get_view_target_weights_def DataFrame_1x1 series_add_def series_subtract_def
      series_scale_def series_binop_aligned map2_interpolate map2_fst map2_snd del: map_map)

theorem target_weights_interpolation_witness:
  "\<exists>target. get_view_target_weights (example_env (Some 0) True) example_engine
               (example_view 1) example_weights example_cov
               (get_view_data_frame (example_view 1) [''A'', ''B''])
               \<lparr>s_name = None, s_index = [1], s_values = [Some (3 / 100)]\<rparr> = Inr target
     \<and> s_index target = [''A'', ''B'']
     \<and> s_values target = [Some (79 / 110), Some (31 / 110)]"
proof -
  let ?fcw = "\<lparr>s_name = None, s_index = [''A'', ''B''],
               s_values = [Some (46 / 55), Some (9 / 55)]\<rparr> :: string series"
  have g: "get_weights (example_env (Some 0) True) example_engine example_weights example_cov
             (get_view_data_frame (example_view 1) [''A'', ''B''])
             \<lparr>df_index = [view_id (example_view 1)], df_columns = [view_id (example_view 1)],
              df_values = [[Some 0]]\<rparr>
             \<lparr>s_name = None, s_index = [1], s_values = [Some (3 / 100)]\<rparr> = Inr ?fcw"
    by (simp add: example_defs engine_defs pandas_defs Let_def)
  have i: "s_index ?fcw = s_index example_weights"
    and m: "s_values example_weights = map Some [6 / 10, 4 / 10]"
    and f: "s_values ?fcw = map Some [46 / 55, 9 / 55]"
    and l: "length ([46 / 55, 9 / 55] :: real list) = length ([6 / 10, 4 / 10] :: real list)"
    by (simp_all add: example_defs)
  show ?thesis
    using target_weights_interpolation [OF g i m f l]
    by (simp add: example_defs)
qed

text \<open>
  Claim C7. For a collection whose view ids are unique and whose views all calibrate,
  \<^verbatim>\<open>get_view_covariances_from_confidences\<close> returns a frame with one row and one column
  per view, labelled by the view ids in the order of the collection, with the calibrated
  variance of the i-th view at position (i, i) and 0 everywhere else.
\<close>

theorem view_covariances_diagonal:
  assumes "distinct (map view_id view_collection)"
    and "list_all2 (\<lambda>view var. confidence_to_variance env self view market_weights
                                 market_covariance = Inr var) view_collection vars"
  shows "get_view_covariances_from_confidences env self market_weights market_covariance
           view_collection
         = Inr \<lparr>df_index = map view_id view_collection,
                df_columns = map view_id view_collection, df_values = np_diag vars\<rparr>
       \<and> length (np_diag vars) = length view_collection
       \<and> (\<forall>i < length view_collection.
             length (np_diag vars ! i) = length view_collection
             \<and> (\<forall>j < length view_collection.
                   np_diag vars ! i ! j = (if i = j then vars ! i else Some 0)))"
proof -
  have len: "length vars = length view_collection"
    using assms(2) by (simp add: list_all2_lengthD)
  have "calibrate_views env self market_weights market_covariance view_collection []
        = Inr (zip (map view_id view_collection) vars)"
    using calibrate_views_distinct[OF assms(2) assms(1), of "[]"] by simp
  then have "get_view_covariances_from_confidences env self market_weights market_covariance
               view_collection
             = Inr \<lparr>df_index = map view_id view_collection,
                    df_columns = map view_id view_collection, df_values = np_diag vars\<rparr>"
    using len
    by (simp add: get_view_covariances_from_confidences_def get_all_views_def DataFrame_np_diag)
  then show ?thesis
    using len by (simp add: np_diag_shape)
qed

theorem view_covariances_diagonal_witness:
  "get_view_covariances_from_confidences (example_env (Some (55 / 10000)) True) example_engine
     example_weights example_cov [example_view 1, example_view 2]
   = Inr \<lparr>df_index = [1, 2], df_columns = [1, 2],
          df_values = [[Some (55 / 10000), Some 0], [Some 0, Some (55 / 10000)]]\<rparr>"
proof -
  have d: "distinct (map view_id [example_view 1, example_view 2])"
    by (simp add: example_defs)
  have c: "list_all2 (\<lambda>view var. confidence_to_variance (example_env (Some (55 / 10000)) True)
                       example_engine view example_weights example_cov = Inr var)
             [example_view 1, example_view 2] [Some (55 / 10000), Some (55 / 10000)]"
    by (simp add: example_defs engine_defs pandas_defs Let_def)
  show ?thesis
    using view_covariances_diagonal [OF d c]
    by (simp add: example_defs np_diag_def)
qed

text \<open>
  Claim C8, as stated, fails. The view is held with confidence 1; the minimiser ends
  at the variance \<open>-2.567 \<cdot> 10\<^sup>-\<^sup>9\<close>, where the objective is about \<open>2.4 \<cdot> 10\<^sup>-\<^sup>1\<^sup>4\<close>
  (it is about 0.1 at the starting point), and reports failure. The calibration returns
  this negative variance, and \<^verbatim>\<open>get_black_litterman_weights\<close> returns weights computed
  with it: no error is reported anywhere.
\<close>

theorem calibration_nonconvergence_counterexample:
  "error_vs_target_weights (descent_env (Some (- 2567 / 10 ^ 12)) False) example_engine
     full_confidence_view example_weights example_cov
     (get_view_data_frame full_confidence_view [''A'', ''B''])
     \<lparr>s_name = None, s_index = [1], s_values = [Some (3 / 100)]\<rparr>
     \<lparr>s_name = None, s_index = [''A'', ''B''], s_values = [Some (46 / 55), Some (9 / 55)]\<rparr>
     (Some (- 2567 / 10 ^ 12))
   = Inr (Some (2227247282 / 91506164583094933204225))
   \<and> optimize_minimize (descent_env (Some (- 2567 / 10 ^ 12)) False)
       (error_vs_target_weights (descent_env (Some (- 2567 / 10 ^ 12)) False) example_engine
          full_confidence_view example_weights example_cov
          (get_view_data_frame full_confidence_view [''A'', ''B''])
          \<lparr>s_name = None, s_index = [1], s_values = [Some (3 / 100)]\<rparr>
          \<lparr>s_name = None, s_index = [''A'', ''B''],
           s_values = [Some (46 / 55), Some (9 / 55)]\<rparr>)
       (Some (1 / 10)) ''BFGS''
     = Inr \<lparr>res_x = [Some (- 2567 / 10 ^ 12)], res_success = False\<rparr>
   \<and> confidence_to_variance (descent_env (Some (- 2567 / 10 ^ 12)) False) example_engine
       full_confidence_view example_weights example_cov = Inr (Some (- 2567 / 10 ^ 12))
   \<and> get_black_litterman_weights (descent_env (Some (- 2567 / 10 ^ 12)) False) example_engine
       [full_confidence_view] ''2020-01-01'' ''2020-12-31''
     = Inr \<lparr>s_name = Some ''black_litterman'', s_index = [''A'', ''B''],
            s_values = [Some (22999992299 / 27499987165),
                        Some (4499994866 / 27499987165)]\<rparr>"
  by (simp add: example_defs engine_defs pandas_defs Let_def)

text \<open>
  Claim C8, amended. Write \<open>T\<close> for the target weights of the view and \<open>R\<close> for what the
  minimiser returns on the objective built from them.
  \<^item> When \<open>T\<close> is computed and \<open>R\<close> is a result whose point is not empty, the calibration
    returns the first coordinate of the point, whatever the flag \<^verbatim>\<open>success\<close> and
    whatever the sign or finiteness of that coordinate.
  \<^item> The calibration fails only with the error that the computation of \<open>T\<close> raised, with
    the error that the minimiser raised, or with \<^verbatim>\<open>IndexError\<close> on an empty point; in
    the first two cases it does fail with that error.
  \<^item> For a collection with unique view ids whose views calibrate to the variances
    \<open>vars\<close>, \<^verbatim>\<open>get_black_litterman_weights\<close> goes on: it is the solver on the diagonal
    matrix of \<open>vars\<close>, renamed.
\<close>

theorem calibration_returns_minimiser_point:
  fixes self :: "'a::linorder BLEngine" and view :: "('v::linorder, 'a) View"
    and view_collection :: "('v, 'a) ViewCollection"
  shows
  "(\<forall>target variance x xs.
      get_view_target_weights env self view market_weights market_cov
        (get_view_data_frame view (asset_list (calc_settings self)))
        \<lparr>s_name = None, s_index = [view_id view],
         s_values = [Some (out_performance view)]\<rparr> = Inr target
      \<and> optimize_minimize env
          (error_vs_target_weights env self view market_weights market_cov
             (get_view_data_frame view (asset_list (calc_settings self)))
             \<lparr>s_name = None, s_index = [view_id view],
              s_values = [Some (out_performance view)]\<rparr> target)
          (Some (1 / 10)) ''BFGS'' = Inr variance
      \<and> res_x variance = x # xs
      \<longrightarrow> confidence_to_variance env self view market_weights market_cov = Inr x)
   \<and> (\<forall>e. confidence_to_variance env self view market_weights market_cov = Inl e
        \<longrightarrow> get_view_target_weights env self view market_weights market_cov
              (get_view_data_frame view (asset_list (calc_settings self)))
              \<lparr>s_name = None, s_index = [view_id view],
               s_values = [Some (out_performance view)]\<rparr> = Inl e
            \<or> (\<exists>target.
                  get_view_target_weights env self view market_weights market_cov
                    (get_view_data_frame view (asset_list (calc_settings self)))
                    \<lparr>s_name = None, s_index = [view_id view],
                     s_values = [Some (out_performance view)]\<rparr> = Inr target
                  \<and> (optimize_minimize env
                        (error_vs_target_weights env self view market_weights market_cov
                           (get_view_data_frame view (asset_list (calc_settings self)))
                           \<lparr>s_name = None, s_index = [view_id view],
                            s_values = [Some (out_performance view)]\<rparr> target)
                        (Some (1 / 10)) ''BFGS'' = Inl e
                      \<or> (\<exists>variance.
                            optimize_minimize env
                              (error_vs_target_weights env self view market_weights market_cov
                                 (get_view_data_frame view (asset_list (calc_settings self)))
                                 \<lparr>s_name = None, s_index = [view_id view],
                                  s_values = [Some (out_performance view)]\<rparr> target)
                              (Some (1 / 10)) ''BFGS'' = Inr variance
                            \<and> res_x variance = [] \<and> e = IndexError))))
   \<and> (\<forall>e. get_view_target_weights env self view market_weights market_cov
              (get_view_data_frame view (asset_list (calc_settings self)))
              \<lparr>s_name = None, s_index = [view_id view],
               s_values = [Some (out_performance view)]\<rparr> = Inl e
        \<longrightarrow> confidence_to_variance env self view market_weights market_cov = Inl e)
   \<and> (\<forall>target e.
        get_view_target_weights env self view market_weights market_cov
          (get_view_data_frame view (asset_list (calc_settings self)))
          \<lparr>s_name = None, s_index = [view_id view],
           s_values = [Some (out_performance view)]\<rparr> = Inr target
        \<and> optimize_minimize env
            (error_vs_target_weights env self view market_weights market_cov
               (get_view_data_frame view (asset_list (calc_settings self)))
               \<lparr>s_name = None, s_index = [view_id view],
                s_values = [Some (out_performance view)]\<rparr> target)
            (Some (1 / 10)) ''BFGS'' = Inl e
        \<longrightarrow> confidence_to_variance env self view market_weights market_cov = Inl e)
   \<and> (distinct (map view_id view_collection)
       \<and> list_all2 (\<lambda>view var. confidence_to_variance env self view market_weights
                                  market_cov = Inr var) view_collection vars
       \<and> mde_get_market_weights (market_data_engine self) end_date = Inr market_weights
       \<and> mde_get_annualised_cov_matrix (market_data_engine self) start end_date
           = Inr market_cov
       \<longrightarrow> get_black_litterman_weights env self view_collection start end_date
             = (case get_weights env self market_weights market_cov
                       (get_view_matrix view_collection (asset_list (calc_settings self)))
                       \<lparr>df_index = map view_id view_collection,
                        df_columns = map view_id view_collection,
                        df_values = np_diag vars\<rparr>
                       (get_view_out_performances view_collection) of
                  Inl e \<Rightarrow> Inl e
                | Inr bl_weights \<Rightarrow>
                    Inr (bl_weights\<lparr>s_name := Some (Weights_BLACK_LITTERMAN env)\<rparr>)))"
proof (intro conjI allI impI)
  fix target variance x xs
  assume "get_view_target_weights env self view market_weights market_cov
            (get_view_data_frame view (asset_list (calc_settings self)))
            \<lparr>s_name = None, s_index = [view_id view],
             s_values = [Some (out_performance view)]\<rparr> = Inr target
          \<and> optimize_minimize env
              (error_vs_target_weights env self view market_weights market_cov
                 (get_view_data_frame view (asset_list (calc_settings self)))
                 \<lparr>s_name = None, s_index = [view_id view],
                  s_values = [Some (out_performance view)]\<rparr> target)
              (Some (1 / 10)) ''BFGS'' = Inr variance
          \<and> res_x variance = x # xs"
  then show "confidence_to_variance env self view market_weights market_cov = Inr x"
    by (simp add: confidence_to_variance_def Let_def)
next
  fix e
  assume "confidence_to_variance env self view market_weights market_cov = Inl e"
  then show "get_view_target_weights env self view market_weights market_cov
              (get_view_data_frame view (asset_list (calc_settings self)))
              \<lparr>s_name = None, s_index = [view_id view],
               s_values = [Some (out_performance view)]\<rparr> = Inl e
            \<or> (\<exists>target.
                  get_view_target_weights env self view market_weights market_cov
                    (get_view_data_frame view (asset_list (calc_settings self)))
                    \<lparr>s_name = None, s_index = [view_id view],
                     s_values = [Some (out_performance view)]\<rparr> = Inr target
                  \<and> (optimize_minimize env
                        (error_vs_target_weights env self view market_weights market_cov
                           (get_view_data_frame view (asset_list (calc_settings self)))
                           \<lparr>s_name = None, s_index = [view_id view],
                            s_values = [Some (out_performance view)]\<rparr> target)
                        (Some (1 / 10)) ''BFGS'' = Inl e
                      \<or> (\<exists>variance.
                            optimize_minimize env
                              (error_vs_target_weights env self view market_weights market_cov
                                 (get_view_data_frame view (asset_list (calc_settings self)))
                                 \<lparr>s_name = None, s_index = [view_id view],
                                  s_values = [Some (out_performance view)]\<rparr> target)
                              (Some (1 / 10)) ''BFGS'' = Inr variance
                            \<and> res_x variance = [] \<and> e = IndexError)))"
    by (auto simp add: confidence_to_variance_def Let_def split: sum.splits list.splits)
next
  fix e
  assume "get_view_target_weights env self view market_weights market_cov
            (get_view_data_frame view (asset_list (calc_settings self)))
            \<lparr>s_name = None, s_index = [view_id view],
             s_values = [Some (out_performance view)]\<rparr> = Inl e"
  then show "confidence_to_variance env self view market_weights market_cov = Inl e"
    by (simp add: confidence_to_variance_def Let_def)
next
  fix target e
  assume "get_view_target_weights env self view market_weights market_cov
            (get_view_data_frame view (asset_list (calc_settings self)))
            \<lparr>s_name = None, s_index = [view_id view],
             s_values = [Some (out_performance view)]\<rparr> = Inr target
          \<and> optimize_minimize env
              (error_vs_target_weights env self view market_weights market_cov
                 (get_view_data_frame view (asset_list (calc_settings self)))
                 \<lparr>s_name = None, s_index = [view_id view],
                  s_values = [Some (out_performance view)]\<rparr> target)
              (Some (1 / 10)) ''BFGS'' = Inl e"
  then show "confidence_to_variance env self view market_weights market_cov = Inl e"
    by (simp add: confidence_to_variance_def Let_def)
next
  assume a: "distinct (map view_id view_collection)
       \<and> list_all2 (\<lambda>view var. confidence_to_variance env self view market_weights
                                  market_cov = Inr var) view_collection vars
       \<and> mde_get_market_weights (market_data_engine self) end_date = Inr market_weights
       \<and> mde_get_annualised_cov_matrix (market_data_engine self) start end_date
           = Inr market_cov"
  then have len: "length vars = length view_collection"
    by (auto dest: list_all2_lengthD)
  from a have "calibrate_views env self market_weights market_cov view_collection []
               = Inr (zip (map view_id view_collection) vars)"
    using calibrate_views_distinct [of env self market_weights market_cov view_collection vars
        "[]"] by simp
  then have cov: "get_view_covariances_from_confidences env self market_weights market_cov
                    view_collection
                  = Inr \<lparr>df_index = map view_id view_collection,
                         df_columns = map view_id view_collection,
                         df_values = np_diag vars\<rparr>"
    using len
    by (simp add: get_view_covariances_from_confidences_def get_all_views_def DataFrame_np_diag)
  from a show "get_black_litterman_weights env self view_collection start end_date
             = (case get_weights env self market_weights market_cov
                       (get_view_matrix view_collection (asset_list (calc_settings self)))
                       \<lparr>df_index = map view_id view_collection,
                        df_columns = map view_id view_collection,
                        df_values = np_diag vars\<rparr>
                       (get_view_out_performances view_collection) of
                  Inl e \<Rightarrow> Inl e
                | Inr bl_weights \<Rightarrow>
                    Inr (bl_weights\<lparr>s_name := Some (Weights_BLACK_LITTERMAN env)\<rparr>))"
    by (simp add: get_black_litterman_weights_def cov)
qed

theorem calibration_returns_minimiser_point_witness:
  "confidence_to_variance (descent_env (Some (- 2567 / 10 ^ 12)) False) example_engine
     full_confidence_view example_weights example_cov = Inr (Some (- 2567 / 10 ^ 12))
   \<and> get_black_litterman_weights (descent_env (Some (- 2567 / 10 ^ 12)) False) example_engine
       [full_confidence_view] ''2020-01-01'' ''2020-12-31''
     = Inr \<lparr>s_name = Some ''black_litterman'', s_index = [''A'', ''B''],
            s_values = [Some (22999992299 / 27499987165),
                        Some (4499994866 / 27499987165)]\<rparr>
   \<and> confidence_to_variance (descent_env (Some 0) True) example_engine_C example_view_C
       example_weights example_cov = Inl UnboundLocalError
   \<and> confidence_to_variance (descent_env (Some (- 55 / 10000)) True) example_engine
       (example_view 1) example_weights example_cov = Inl LinAlgError"
proof -
  have e1: "confidence_to_variance (descent_env (Some 0) True) example_engine_C example_view_C
              example_weights example_cov = Inl UnboundLocalError"
  proof -
    have "get_view_target_weights (descent_env (Some 0) True) example_engine_C example_view_C
            example_weights example_cov
            (get_view_data_frame example_view_C (asset_list (calc_settings example_engine_C)))
            \<lparr>s_name = None, s_index = [view_id example_view_C],
             s_values = [Some (out_performance example_view_C)]\<rparr> = Inl UnboundLocalError"
      by (simp add: example_defs engine_defs pandas_defs Let_def)
    then show ?thesis
      using calibration_returns_minimiser_point [where env = "descent_env (Some 0) True"
          and self = example_engine_C and view = example_view_C
          and market_weights = example_weights and market_cov = example_cov]
      by blast
  qed
  have e2: "confidence_to_variance (descent_env (Some (- 55 / 10000)) True) example_engine
              (example_view 1) example_weights example_cov = Inl LinAlgError"
  proof -
    let ?env = "descent_env (Some (- 55 / 10000)) True"
    let ?view = "example_view 1"
    let ?vm = "get_view_data_frame ?view (asset_list (calc_settings example_engine))"
    let ?q = "\<lparr>s_name = None, s_index = [view_id ?view],
               s_values = [Some (out_performance ?view)]\<rparr>"
    let ?target = "\<lparr>s_name = None, s_index = [''A'', ''B''],
                    s_values = [Some (79 / 110), Some (31 / 110)]\<rparr> :: string series"
    have t: "get_view_target_weights ?env example_engine ?view example_weights example_cov
               ?vm ?q = Inr ?target"
      by (simp add: example_defs engine_defs pandas_defs Let_def)
    have m: "optimize_minimize ?env
               (error_vs_target_weights ?env example_engine ?view example_weights example_cov
                  ?vm ?q ?target) (Some (1 / 10)) ''BFGS'' = Inl LinAlgError"
      by (simp add: example_defs engine_defs pandas_defs Let_def)
    show ?thesis
      using calibration_returns_minimiser_point [where env = "?env"
          and self = example_engine and view = "?view"
          and market_weights = example_weights and market_cov = example_cov] t m
      by blast
  qed
  have main: "confidence_to_variance (descent_env (Some (- 2567 / 10 ^ 12)) False)
       example_engine full_confidence_view example_weights example_cov
       = Inr (Some (- 2567 / 10 ^ 12))
   \<and> get_black_litterman_weights (descent_env (Some (- 2567 / 10 ^ 12)) False) example_engine
       [full_confidence_view] ''2020-01-01'' ''2020-12-31''
     = Inr \<lparr>s_name = Some ''black_litterman'', s_index = [''A'', ''B''],
            s_values = [Some (22999992299 / 27499987165),
                        Some (4499994866 / 27499987165)]\<rparr>"
  proof -
  let ?x = "Some (- 2567 / 10 ^ 12) :: num"
  let ?env = "descent_env ?x False"
  let ?view = "full_confidence_view"
  let ?vm = "get_view_data_frame ?view (asset_list (calc_settings example_engine))"
  let ?q = "\<lparr>s_name = None, s_index = [view_id ?view],
             s_values = [Some (out_performance ?view)]\<rparr>"
  let ?target = "\<lparr>s_name = None, s_index = [''A'', ''B''],
                  s_values = [Some (46 / 55), Some (9 / 55)]\<rparr> :: string series"
  let ?variance = "\<lparr>res_x = [?x], res_success = False\<rparr>"
  let ?bl = "\<lparr>s_name = None, s_index = [''A'', ''B''],
              s_values = [Some (22999992299 / 27499987165),
                          Some (4499994866 / 27499987165)]\<rparr> :: string series"
  note inst = calibration_returns_minimiser_point [where env = "?env"
      and self = example_engine and view = "?view" and market_weights = example_weights
      and market_cov = example_cov and view_collection = "[?view]" and vars = "[?x]"
      and end_date = "''2020-12-31''" and start = "''2020-01-01''"]
  have t: "get_view_target_weights ?env example_engine ?view example_weights example_cov ?vm ?q
           = Inr ?target"
    by (simp add: example_defs engine_defs pandas_defs Let_def)
  have m: "optimize_minimize ?env
             (error_vs_target_weights ?env example_engine ?view example_weights example_cov
                ?vm ?q ?target) (Some (1 / 10)) ''BFGS'' = Inr ?variance"
    by (simp add: example_defs engine_defs pandas_defs Let_def)
  have x: "res_x ?variance = ?x # []"
    by simp
  have c: "confidence_to_variance ?env example_engine ?view example_weights example_cov
           = Inr ?x"
    using inst t m x by blast
  have d: "distinct (map view_id [?view])"
    by simp
  have w: "mde_get_market_weights (market_data_engine example_engine) ''2020-12-31''
           = Inr example_weights"
    and v: "mde_get_annualised_cov_matrix (market_data_engine example_engine) ''2020-01-01''
              ''2020-12-31'' = Inr example_cov"
    by (simp_all add: example_defs)
  have g: "get_weights ?env example_engine example_weights example_cov
             (get_view_matrix [?view] (asset_list (calc_settings example_engine)))
             \<lparr>df_index = map view_id [?view], df_columns = map view_id [?view],
              df_values = np_diag [?x]\<rparr>
             (get_view_out_performances [?view]) = Inr ?bl"
    by (simp add: example_defs engine_defs pandas_defs Let_def)
  have "get_black_litterman_weights ?env example_engine [?view] ''2020-01-01'' ''2020-12-31''
        = (case get_weights ?env example_engine example_weights example_cov
                  (get_view_matrix [?view] (asset_list (calc_settings example_engine)))
                  \<lparr>df_index = map view_id [?view], df_columns = map view_id [?view],
                   df_values = np_diag [?x]\<rparr>
                  (get_view_out_performances [?view]) of
             Inl e \<Rightarrow> Inl e
           | Inr bl_weights \<Rightarrow>
               Inr (bl_weights\<lparr>s_name := Some (Weights_BLACK_LITTERMAN ?env)\<rparr>))"
    using inst d c w v by simp
  then have "get_black_litterman_weights ?env example_engine [?view] ''2020-01-01''
               ''2020-12-31''
             = Inr (?bl\<lparr>s_name := Some (Weights_BLACK_LITTERMAN ?env)\<rparr>)"
    by (simp only: g sum.case)
  then show ?thesis
    using c by (simp add: descent_env_def)
  qed
  from main e1 e2 show ?thesis by blast
qed

section \<open>Failures of the solver\<close>

text \<open>
  Claim C5. The view matrix has a column for asset \<open>C\<close>, which the market covariance
  does not know. pandas raises \<^verbatim>\<open>ValueError\<close> for the product; the handler of
  \<^verbatim>\<open>_get_weights\<close> swallows it and the call ends in \<^verbatim>\<open>UnboundLocalError\<close>, in the
  solver and in \<^verbatim>\<open>get_black_litterman_weights\<close> alike, instead of an error that
  reports the misalignment.
\<close>

theorem misaligned_assets_unbound_local:
  "df_dot (get_view_matrix [example_view_C] [''A'', ''B'', ''C'']) example_cov = Inl ValueError
   \<and> get_weights (example_env (Some 0) True) example_engine_C example_weights example_cov
       (get_view_matrix [example_view_C] [''A'', ''B'', ''C''])
       \<lparr>df_index = [1], df_columns = [1], df_values = [[Some (55 / 10000)]]\<rparr>
       (get_view_out_performances [example_view_C]) = Inl UnboundLocalError
   \<and> get_black_litterman_weights (example_env (Some 0) True) example_engine_C
       [example_view_C] ''2020-01-01'' ''2020-12-31'' = Inl UnboundLocalError"
  by (simp add: example_defs engine_defs pandas_defs Let_def)

text \<open>
  The same holds for every input: whenever the computation of \<^verbatim>\<open>mat_1\<close> raises
  \<^verbatim>\<open>ValueError\<close>, the solver ends in \<^verbatim>\<open>UnboundLocalError\<close>.
\<close>

lemma get_weights_swallows_ValueError:
  "mat_1_of (calc_settings self) market_cov view_matrix view_cov = Inl ValueError \<Longrightarrow>
   get_weights env self market_weights market_cov view_matrix view_cov view_out_performance
     = Inl UnboundLocalError"
  by (simp add: get_weights_def)

text \<open>
  Labels that differ do not always end in an error. Two views, and an out-performance
  vector that has an entry for the first view only: the subtraction in \<^verbatim>\<open>mat_2\<close>
  aligns both operands on the union of their labels and fills the missing entry with NaN,
  and the solver returns weights that are all NaN.
\<close>

lemma missing_out_performance_gives_nan:
  "get_weights (example_env (Some 0) True) example_engine example_weights example_cov
     (get_view_matrix [example_view 1, example_view_A] [''A'', ''B''])
     \<lparr>df_index = [1, 2], df_columns = [1, 2],
      df_values = [[Some (55 / 10000), Some 0], [Some 0, Some (55 / 10000)]]\<rparr>
     \<lparr>s_name = None, s_index = [1], s_values = [Some (3 / 100)]\<rparr>
   = Inr \<lparr>s_name = None, s_index = [''A'', ''B''], s_values = [None, None]\<rparr>"
  by (simp add: example_defs engine_defs pandas_defs Let_def)

text \<open>
  The call of \<^verbatim>\<open>np.linalg.inv\<close> is outside the \<^verbatim>\<open>try\<close> block: when numpy raises
  \<^verbatim>\<open>LinAlgError\<close> for the matrix the solver built, the solver ends with that error
  and \<^verbatim>\<open>get_black_litterman_weights\<close> passes it on. For which matrices numpy raises
  is not part of this model: numpy decides it by a zero pivot in a floating-point
  factorisation of the floating-point matrix, and here \<^verbatim>\<open>np.linalg.inv\<close> is a
  parameter and a float is a real number.
\<close>

lemma LinAlgError_propagates:
  assumes "mat_1_of (calc_settings self) market_cov view_matrix view_cov = Inr mat_1"
    and "np_linalg_inv env (df_values mat_1) = Inl LinAlgError"
  shows "get_weights env self market_weights market_cov view_matrix view_cov
           view_out_performance = Inl LinAlgError"
  using assms by (simp add: get_weights_def)

section \<open>The facade\<close>

text \<open>
  Claim C9. \<^verbatim>\<open>get_market_weights\<close> without an end date is \<^verbatim>\<open>get_market_weights\<close> at
  the calculation date of the settings; with an end date it asks the market-data
  collaborator for the weights at that very date.
\<close>

theorem market_weights_default_date:
  "get_market_weights env self None
     = get_market_weights env self (Some (calculation_date (calc_settings self)))
   \<and> get_market_weights env self (Some end_date)
     = (case mde_get_market_weights (market_data_engine self) end_date of
          Inl e \<Rightarrow> Inl e
        | Inr weights \<Rightarrow> Inr (weights\<lparr>s_name := Some (Weights_MARKET env)\<rparr>))"
  by (simp add: get_market_weights_def)

text \<open>
  Claim C10, one call at a time. Whenever \<^verbatim>\<open>get_market_weights\<close> returns, its result
  carries the name \<^verbatim>\<open>Weights.MARKET\<close> and is otherwise the Series that the
  collaborator gave for the date; and, independently of that, whenever
  \<^verbatim>\<open>get_black_litterman_weights\<close> returns, its result carries the name
  \<^verbatim>\<open>Weights.BLACK_LITTERMAN\<close> and is otherwise the Series that the solver returned
  for the market data, the view matrix, the calibrated covariance and the
  out-performances of the collection.
\<close>

theorem facade_names:
  "(get_market_weights env self end_date_opt = Inr market
    \<longrightarrow> s_name market = Some (Weights_MARKET env)
        \<and> (\<exists>weights.
              mde_get_market_weights (market_data_engine self)
                (case end_date_opt of None \<Rightarrow> calculation_date (calc_settings self)
                 | Some d \<Rightarrow> d) = Inr weights
              \<and> market = weights\<lparr>s_name := Some (Weights_MARKET env)\<rparr>))
   \<and> (get_black_litterman_weights env self view_collection start end_date = Inr bl
       \<longrightarrow> s_name bl = Some (Weights_BLACK_LITTERMAN env)
           \<and> (\<exists>market_weights market_cov view_cov bl_weights.
                 mde_get_market_weights (market_data_engine self) end_date
                   = Inr market_weights
                 \<and> mde_get_annualised_cov_matrix (market_data_engine self) start end_date
                     = Inr market_cov
                 \<and> get_view_covariances_from_confidences env self market_weights market_cov
                     view_collection = Inr view_cov
                 \<and> get_weights env self market_weights market_cov
                     (get_view_matrix view_collection (asset_list (calc_settings self)))
                     view_cov (get_view_out_performances view_collection) = Inr bl_weights
                 \<and> bl = bl_weights\<lparr>s_name := Some (Weights_BLACK_LITTERMAN env)\<rparr>))"
proof (intro conjI impI)
  assume m: "get_market_weights env self end_date_opt = Inr market"
  then show "s_name market = Some (Weights_MARKET env)"
    by (auto simp add: get_market_weights_def split: sum.splits)
  from m show "\<exists>weights.
              mde_get_market_weights (market_data_engine self)
                (case end_date_opt of None \<Rightarrow> calculation_date (calc_settings self)
                 | Some d \<Rightarrow> d) = Inr weights
              \<and> market = weights\<lparr>s_name := Some (Weights_MARKET env)\<rparr>"
    by (auto simp add: get_market_weights_def split: sum.splits)
next
  assume b: "get_black_litterman_weights env self view_collection start end_date = Inr bl"
  then show "s_name bl = Some (Weights_BLACK_LITTERMAN env)"
    by (auto simp add: get_black_litterman_weights_def Let_def split: sum.splits)
  from b show "\<exists>market_weights market_cov view_cov bl_weights.
                 mde_get_market_weights (market_data_engine self) end_date
                   = Inr market_weights
                 \<and> mde_get_annualised_cov_matrix (market_data_engine self) start end_date
                     = Inr market_cov
                 \<and> get_view_covariances_from_confidences env self market_weights market_cov
                     view_collection = Inr view_cov
                 \<and> get_weights env self market_weights market_cov
                     (get_view_matrix view_collection (asset_list (calc_settings self)))
                     view_cov (get_view_out_performances view_collection) = Inr bl_weights
                 \<and> bl = bl_weights\<lparr>s_name := Some (Weights_BLACK_LITTERMAN env)\<rparr>"
    by (auto simp add: get_black_litterman_weights_def Let_def split: sum.splits)
qed

theorem facade_names_witness:
  "s_name \<lparr>s_name = Some ''market'', s_index = [''A'', ''B''],
           s_values = [Some (6 / 10), Some (4 / 10)]\<rparr>
     = Some (Weights_MARKET (example_env (Some (55 / 10000)) True))
   \<and> s_name \<lparr>s_name = Some ''black_litterman'', s_index = [''A'', ''B''],
             s_values = [Some (79 / 110), Some (31 / 110)]\<rparr>
     = Some (Weights_BLACK_LITTERMAN (example_env (Some (55 / 10000)) True))
   \<and> get_market_weights (example_env (Some (55 / 10000)) True) example_engine None
     = Inr \<lparr>s_name = Some ''market'', s_index = [''A'', ''B''],
            s_values = [Some (6 / 10), Some (4 / 10)]\<rparr>
   \<and> get_black_litterman_weights (example_env (Some (55 / 10000)) True) example_engine
       [example_view 1] ''2020-01-01'' ''2020-12-31''
     = Inr \<lparr>s_name = Some ''black_litterman'', s_index = [''A'', ''B''],
            s_values = [Some (79 / 110), Some (31 / 110)]\<rparr>"
proof -
  let ?env = "example_env (Some (55 / 10000)) True"
  let ?market = "\<lparr>s_name = Some ''market'', s_index = [''A'', ''B''],
                  s_values = [Some (6 / 10), Some (4 / 10)]\<rparr> :: string series"
  let ?bl = "\<lparr>s_name = Some ''black_litterman'', s_index = [''A'', ''B''],
              s_values = [Some (79 / 110), Some (31 / 110)]\<rparr> :: string series"
  have m: "get_market_weights ?env example_engine None = Inr ?market"
    by (simp add: example_defs get_market_weights_def)
  have b: "get_black_litterman_weights ?env example_engine [example_view 1] ''2020-01-01''
             ''2020-12-31'' = Inr ?bl"
    by (simp add: example_defs engine_defs pandas_defs Let_def)
  show ?thesis
    using facade_names [where env = "?env" and self = example_engine
        and end_date_opt = None and market = "?market" and view_collection = "[example_view 1]"
        and start = "''2020-01-01''" and end_date = "''2020-12-31''" and bl = "?bl"] m b
    by blast
qed

end
